theory Spec2Isabelle
  imports Complex_Main "HOL-Library.Sublist"
begin

section \<open>JavaScript values and string primitives used by the client\<close>

text \<open>
  Values of TypeScript type \<open>unknown\<close> that the client handles are the results of
  \<open>response.json()\<close>, \<open>response.text()\<close> and the literal \<open>{}\<close>: JSON values.
  \<open>JNull\<close> is JavaScript's \<open>null\<close>.
\<close>

datatype json =
    JNull
  | JBool bool
  | JNum rat
  | JStr string
  | JArr "json list"
  | JObj "(string \<times> json) list"

text \<open>JavaScript truthiness of a value (\<open>if (v)\<close>, \<open>v && ...\<close>, \<open>v || ...\<close>).\<close>

fun truthy :: "json \<Rightarrow> bool" where
  "truthy JNull = False"
| "truthy (JBool b) = b"
| "truthy (JNum n) = (n \<noteq> 0)"
| "truthy (JStr s) = (s \<noteq> [])"
| "truthy (JArr _) = True"
| "truthy (JObj _) = True"

text \<open>
  A value of type \<open>string | null\<close> or \<open>string | undefined\<close> is a \<open>string option\<close>;
  it is truthy when it is a non-empty string.
\<close>

fun truthy_str :: "string option \<Rightarrow> bool" where
  "truthy_str None = False"
| "truthy_str (Some s) = (s \<noteq> [])"

text \<open>\<open>a || b\<close> on strings: \<open>a\<close> when it is truthy, \<open>b\<close> otherwise.\<close>

definition or_else :: "string option \<Rightarrow> string \<Rightarrow> string" where
  "or_else a b = (case a of None \<Rightarrow> b | Some s \<Rightarrow> if s = [] then b else s)"

text \<open>
  \<open>String.prototype.toLowerCase\<close>, on the ASCII letters. Strings are byte lists here, so
  letters outside ASCII are left as they are.
\<close>

definition lower_char :: "char \<Rightarrow> char" where
  "lower_char c =
     (case map_of (zip ''ABCDEFGHIJKLMNOPQRSTUVWXYZ'' ''abcdefghijklmnopqrstuvwxyz'') c of
        None \<Rightarrow> c
      | Some l \<Rightarrow> l)"

definition toLowerCase :: "string \<Rightarrow> string" where
  "toLowerCase s = map lower_char s"

text \<open>
  \<open>s.split(sep)\<close> for a one-character separator: \<open>cur\<close> holds the current segment
  reversed, \<open>acc\<close> the finished segments, last one first. The result is never empty
  (\<open>"".split(sep)\<close> is \<open>[""]\<close>). \<open>pop\<close> is \<open>Array.prototype.pop\<close>, read for its
  value: the last element, \<open>undefined\<close> on an empty array.
\<close>

fun split_acc :: "char \<Rightarrow> string \<Rightarrow> string \<Rightarrow> string list \<Rightarrow> string list" where
  "split_acc sep [] cur acc = rev (rev cur # acc)"
| "split_acc sep (c # cs) cur acc =
     (if c = sep then split_acc sep cs [] (rev cur # acc)
      else split_acc sep cs (c # cur) acc)"

definition split :: "string \<Rightarrow> char \<Rightarrow> string list" where
  "split s sep = split_acc sep s [] []"

definition pop :: "string list \<Rightarrow> string option" where
  "pop xs = (case xs of [] \<Rightarrow> None | _ \<Rightarrow> Some (last xs))"

text \<open>\<open>hay.includes(needle)\<close>: the needle occurs as a contiguous substring.\<close>

fun str_includes :: "string \<Rightarrow> string \<Rightarrow> bool" where
  "str_includes [] needle = (needle = [])"
| "str_includes (c # cs) needle = (prefix needle (c # cs) \<or> str_includes cs needle)"

text \<open>Decimal rendering of an integer, as template strings render one.\<close>

definition digit_char :: "nat \<Rightarrow> char" where
  "digit_char d = ''0123456789'' ! d"

fun show_nat :: "nat \<Rightarrow> string" where
  "show_nat n = (if n < 10 then [digit_char n] else show_nat (n div 10) @ [digit_char (n mod 10)])"

definition show_int :: "int \<Rightarrow> string" where
  "show_int i = (if i < 0 then CHR ''-'' # show_nat (nat (- i)) else show_nat (nat i))"

text \<open>
  \<open>parseInt(s)\<close> with no radix: leading white space is skipped, then an optional sign,
  then either \<open>0x\<close>/\<open>0X\<close> and hexadecimal digits or decimal digits, up to the first
  character that is not a digit. \<open>None\<close> is \<open>NaN\<close> (no digit was read). This is the
  exact integer that was read; \<open>parseInt_number\<close> below is the double \<open>parseInt\<close> returns.
\<close>

definition is_space :: "char \<Rightarrow> bool" where
  "is_space c = (c \<in> set [CHR '' '', CHR 0x09, CHR 0x0A, CHR 0x0B, CHR 0x0C, CHR 0x0D])"

definition digit_val :: "char \<Rightarrow> nat option" where
  "digit_val c =
     map_of (zip ''0123456789abcdefABCDEF''
       [0, 1, 2, 3, 4, 5, 6, 7, 8, 9, 10, 11, 12, 13, 14, 15, 10, 11, 12, 13, 14, 15]) c"

fun read_digits :: "nat \<Rightarrow> string \<Rightarrow> nat option \<Rightarrow> nat option" where
  "read_digits radix [] acc = acc"
| "read_digits radix (c # cs) acc =
     (case digit_val c of
        None \<Rightarrow> acc
      | Some d \<Rightarrow>
          if d < radix
          then read_digits radix cs (Some ((case acc of None \<Rightarrow> 0 | Some a \<Rightarrow> a) * radix + d))
          else acc)"

definition parse_unsigned :: "string \<Rightarrow> nat option" where
  "parse_unsigned s =
     (case s of
        c # x # rest \<Rightarrow>
          if c = CHR ''0'' \<and> (x = CHR ''x'' \<or> x = CHR ''X'')
          then read_digits 16 rest None
          else read_digits 10 s None
      | _ \<Rightarrow> read_digits 10 s None)"

definition parseInt :: "string \<Rightarrow> int option" where
  "parseInt s =
     (case dropWhile is_space s of
        [] \<Rightarrow> None
      | c # cs \<Rightarrow>
          if c = CHR ''-'' then map_option (\<lambda>n. - int n) (parse_unsigned cs)
          else if c = CHR ''+'' then map_option int (parse_unsigned cs)
          else map_option int (parse_unsigned (c # cs)))"

section \<open>Data model\<close>

datatype http_method = GET | POST | PUT | DELETE

text \<open>Query parameters: \<open>Record<string, string | number | boolean>\<close>, in insertion order.\<close>

datatype qvalue = QStr string | QNum int | QBool bool

type_synonym query_params = "(string \<times> qvalue) list"

text \<open>
  A JavaScript number as the retry logic computes with it: a finite double, given by its
  exact value, \<open>NaN\<close>, or an infinity.
\<close>

datatype number = Number rat | NaN | PosInfinity | NegInfinity

text \<open>
  Library functions of the JavaScript platform whose output the client only passes on.
  They are parameters of the model: \<open>JSON.stringify\<close> (on the query object and on the body
  of a request), \<open>URLSearchParams.toString\<close> after appending \<open>String(value)\<close> for each entry, the
  rendering of a number inside a template string, the base64 codec of \<open>Buffer\<close>, and
  \<open>round_double\<close>, the rounding of a real number to the nearest double (used below for
  values that are not safe integers and lie within the range of doubles). A \<open>Buffer\<close> is
  a byte list, which is what \<open>string\<close> is.
\<close>

record platform =
  json_stringify_params :: "query_params \<Rightarrow> string"
  json_stringify :: "json \<Rightarrow> string"
  url_search_params :: "query_params \<Rightarrow> string"
  number_to_string :: "number \<Rightarrow> string"
  round_double :: "rat \<Rightarrow> rat"
  base64_encode :: "string \<Rightarrow> string"
  base64_decode :: "string \<Rightarrow> string"

text \<open>
  Arithmetic on doubles. Every integer of magnitude up to \<open>2^53\<close> is a double, so a result
  that is such an integer is exact; any other result is rounded by the platform, and a
  result at or beyond \<open>2^1024 - 2^970\<close> in magnitude rounds to an infinity.
  \<open>round_finite\<close> is the rounding for results that stay far below that threshold.
\<close>

definition safe_integer :: "rat \<Rightarrow> bool" where
  "safe_integer x = (rat_of_int \<lfloor>x\<rfloor> = x \<and> \<bar>x\<bar> \<le> 9007199254740992)"

definition overflow_threshold :: rat where
  "overflow_threshold = 2 ^ 1024 - 2 ^ 970"

definition round_finite :: "platform \<Rightarrow> rat \<Rightarrow> rat" where
  "round_finite p x = (if safe_integer x then x else round_double p x)"

definition to_double :: "platform \<Rightarrow> rat \<Rightarrow> number" where
  "to_double p x =
     (if safe_integer x then Number x
      else if overflow_threshold \<le> \<bar>x\<bar> then (if x < 0 then NegInfinity else PosInfinity)
      else Number (round_double p x))"

text \<open>\<open>a * 1000\<close> and \<open>a / 1000\<close> on a number.\<close>

definition times_1000 :: "platform \<Rightarrow> number \<Rightarrow> number" where
  "times_1000 p a =
     (case a of
        Number x \<Rightarrow> to_double p (x * 1000)
      | NaN \<Rightarrow> NaN
      | PosInfinity \<Rightarrow> PosInfinity
      | NegInfinity \<Rightarrow> NegInfinity)"

definition div_1000 :: "platform \<Rightarrow> number \<Rightarrow> number" where
  "div_1000 p a =
     (case a of
        Number x \<Rightarrow> to_double p (x / 1000)
      | NaN \<Rightarrow> NaN
      | PosInfinity \<Rightarrow> PosInfinity
      | NegInfinity \<Rightarrow> NegInfinity)"

text \<open>\<open>parseInt(s)\<close> as the double it returns; \<open>NaN\<close> when no digit was read.\<close>

definition parseInt_number :: "platform \<Rightarrow> string \<Rightarrow> number" where
  "parseInt_number p s = (case parseInt s of None \<Rightarrow> NaN | Some n \<Rightarrow> to_double p (rat_of_int n))"

text \<open>\<open>interface ApiError { error: string; message: string; status?: number }\<close>\<close>

record ApiError =
  error :: string
  message :: string
  status :: "nat option"

text \<open>
  What a \<open>throw\<close> or a rejected promise carries: an \<open>ApiError\<close> object literal built by the
  client, or a native \<open>Error\<close> (the \<open>TypeError\<close> of a failed \<open>fetch\<close>, the
  \<open>SyntaxError\<close> of \<open>response.json()\<close>) with its message. A native error has no
  \<open>error\<close> and no \<open>status\<close> property.
\<close>

datatype thrown = Record ApiError | Native string

record CacheEntry =
  data :: json
  timestamp :: int

record BambooHRConfig =
  apiKey :: string
  companyDomain :: string

record BambooHRClient = BambooHRConfig +
  baseUrl :: string
  cache :: "string \<rightharpoonup> CacheEntry"

definition API_VERSION :: string where
  "API_VERSION = ''v1''"

definition cacheTTL :: int where
  "cacheTTL = 5 * 60 * 1000"

definition new_client :: "BambooHRConfig \<Rightarrow> BambooHRClient" where
  "new_client config =
     \<lparr>apiKey = apiKey config, companyDomain = companyDomain config,
      baseUrl = ''https://'' @ companyDomain config @ ''.bamboohr.com/api/'' @ API_VERSION,
      cache = Map.empty\<rparr>"

text \<open>
  A \<open>Response\<close>: \<open>resp_headers\<close> is keyed by the lower-cased header name (\<open>Headers.get\<close>
  ignores case); \<open>resp_json\<close> is what \<open>response.json()\<close> settles to, \<open>Inl\<close> the message
  of the \<open>SyntaxError\<close> when the body is not JSON; \<open>resp_text\<close> is \<open>response.text()\<close>.
\<close>

record Response =
  resp_status :: nat
  resp_statusText :: string
  resp_headers :: "string \<rightharpoonup> string"
  resp_json :: "string + json"
  resp_text :: string

definition ok :: "Response \<Rightarrow> bool" where
  "ok r = (200 \<le> resp_status r \<and> resp_status r \<le> 299)"

definition headers_get :: "Response \<Rightarrow> string \<Rightarrow> string option" where
  "headers_get r name = resp_headers r (toLowerCase name)"

text \<open>The arguments of one \<open>fetch\<close> call.\<close>

record Request =
  url :: string
  req_method :: http_method
  req_headers :: "(string \<times> string) list"
  req_body :: "string option"

datatype fetch_outcome = Responded Response | Rejected string

datatype event = Fetch Request | Sleep number | ConsoleError string

text \<open>
  The world outside the client. \<open>now\<close> is what \<open>Date.now()\<close> returns; \<open>net i\<close> is the time
  the \<open>i\<close>-th \<open>fetch\<close> of the run takes and how it settles; \<open>rnd i\<close> is the value of the
  \<open>i\<close>-th \<open>Math.random()\<close>; \<open>trace\<close> records every network call, every sleep and every
  console line in the order they happen.
\<close>

record env =
  now :: int
  net :: "nat \<Rightarrow> nat \<times> fetch_outcome"
  nfetch :: nat
  rnd :: "nat \<Rightarrow> rat"
  nrand :: nat
  trace :: "event list"

definition fetch :: "env \<Rightarrow> Request \<Rightarrow> fetch_outcome \<times> env" where
  "fetch w rq =
     (case net w (nfetch w) of
        (elapsed, out) \<Rightarrow>
          (out, w\<lparr>now := now w + int elapsed, nfetch := Suc (nfetch w),
                  trace := trace w @ [Fetch rq]\<rparr>))"

text \<open>
  \<open>sleep(ms)\<close> is \<open>setTimeout(resolve, ms)\<close> under Node: a delay that is not between 1 and
  \<open>2^31 - 1\<close> (a \<open>NaN\<close>, an infinity, a negative or too large value) is replaced by 1, and
  the timer fires after the whole milliseconds of the delay. \<open>timer_ms\<close> is that time; the
  clock has advanced by it when \<open>sleep\<close> returns.
\<close>

definition timer_ms :: "number \<Rightarrow> int" where
  "timer_ms ms =
     (case ms of
        Number d \<Rightarrow> if 1 \<le> d \<and> d \<le> 2147483647 then \<lfloor>d\<rfloor> else 1
      | NaN \<Rightarrow> 1
      | PosInfinity \<Rightarrow> 1
      | NegInfinity \<Rightarrow> 1)"

definition sleep :: "number \<Rightarrow> env \<Rightarrow> env" where
  "sleep ms w = w\<lparr>now := now w + timer_ms ms, trace := trace w @ [Sleep ms]\<rparr>"

definition random :: "env \<Rightarrow> rat \<times> env" where
  "random w = (rnd w (nrand w), w\<lparr>nrand := Suc (nrand w)\<rparr>)"

definition console_error :: "string \<Rightarrow> env \<Rightarrow> env" where
  "console_error line w = w\<lparr>trace := trace w @ [ConsoleError line]\<rparr>"

section \<open>The cache\<close>

definition getCacheKey :: "platform \<Rightarrow> string \<Rightarrow> query_params option \<Rightarrow> string" where
  "getCacheKey p endpoint queryParams =
     endpoint @ (case queryParams of None \<Rightarrow> [] | Some q \<Rightarrow> json_stringify_params p q)"

text \<open>
  \<open>getFromCache\<close> returns \<open>T | null\<close>: \<open>JNull\<close> when there is no entry or the entry is
  older than the TTL (and then the entry is deleted), the entry's data otherwise.
\<close>

definition getFromCache :: "BambooHRClient \<Rightarrow> env \<Rightarrow> string \<Rightarrow> json \<times> BambooHRClient" where
  "getFromCache c w key =
     (case cache c key of
        None \<Rightarrow> (JNull, c)
      | Some entry \<Rightarrow>
          if now w - timestamp entry > cacheTTL
          then (JNull, c\<lparr>cache := (cache c)(key := None)\<rparr>)
          else (data entry, c))"

definition setCache :: "BambooHRClient \<Rightarrow> env \<Rightarrow> string \<Rightarrow> json \<Rightarrow> BambooHRClient" where
  "setCache c w key d = c\<lparr>cache := (cache c)(key \<mapsto> \<lparr>data = d, timestamp = now w\<rparr>)\<rparr>"

section \<open>Request headers\<close>

definition getAuthHeader :: "platform \<Rightarrow> BambooHRClient \<Rightarrow> string" where
  "getAuthHeader p c = ''Basic '' @ base64_encode p (apiKey c @ '':x'')"

definition getHeaders :: "platform \<Rightarrow> BambooHRClient \<Rightarrow> string \<Rightarrow> (string \<times> string) list" where
  "getHeaders p c contentType =
     [(''Authorization'', getAuthHeader p c),
      (''Accept'', ''application/json''),
      (''Content-Type'', contentType)]"

text \<open>\<open>headers[name] = value\<close> on a header object that has the key already.\<close>

definition set_header :: "string \<Rightarrow> string \<Rightarrow> (string \<times> string) list \<Rightarrow> (string \<times> string) list" where
  "set_header name v hs = map (\<lambda>(k, x). if k = name then (k, v) else (k, x)) hs"


section \<open>makeRequest\<close>

definition build_request ::
  "platform \<Rightarrow> BambooHRClient \<Rightarrow> string \<Rightarrow> http_method \<Rightarrow> json option \<Rightarrow>
   query_params option \<Rightarrow> Request" where
  "build_request p c endpoint meth body queryParams =
     \<lparr>url = baseUrl c @ endpoint @
        (case queryParams of None \<Rightarrow> [] | Some q \<Rightarrow> ''?'' @ url_search_params p q),
      req_method = meth,
      req_headers = getHeaders p c ''application/json'',
      req_body =
        (case body of
           None \<Rightarrow> None
         | Some b \<Rightarrow>
             if truthy b \<and> (meth = POST \<or> meth = PUT) then Some (json_stringify p b)
             else None)\<rparr>"

definition error_message :: "Response \<Rightarrow> string" where
  "error_message r =
     or_else (headers_get r ''X-BambooHR-Error-Message'')
       (''HTTP '' @ show_nat (resp_status r) @ '': '' @ resp_statusText r)"

definition api_error :: "Response \<Rightarrow> ApiError" where
  "api_error r = \<lparr>error = ''API_ERROR'', message = error_message r, status = Some (resp_status r)\<rparr>"

definition retrying_message :: "platform \<Rightarrow> number \<Rightarrow> int \<Rightarrow> int \<Rightarrow> string" where
  "retrying_message p waitTime attempt maxRetries =
     ''Rate limit exceeded. Retrying after '' @
     number_to_string p (div_1000 p waitTime) @
     '' seconds... (Attempt '' @ show_int (attempt + 1) @ ''/'' @ show_int maxRetries @ '')''"

definition max_retries_message :: string where
  "max_retries_message =
     ''Rate limit exceeded. Maximum retry attempts reached. Please try again later.''"

definition unauthorized_message :: string where
  "unauthorized_message =
     ''Authentication failed. The API key is invalid or has been revoked. Please verify BAMBOOHR_API_KEY in your .env file and ensure the key is still active in BambooHR '' @
     [CHR 0xE2, CHR 0x86, CHR 0x92] @ '' API Keys settings.''"

definition forbidden_message :: string where
  "forbidden_message =
     ''Access forbidden. The user associated with this API key lacks permissions for this resource. Generate a new API key with an admin or appropriately permissioned user.''"

definition not_found_message :: string where
  "not_found_message =
     ''Resource not found. Verify the employee ID or resource identifier is correct.''"

text \<open>The loop's two mutable locals.\<close>

record locals =
  lastError :: "thrown option"
  retryDelay :: rat

text \<open>How the \<open>try\<close> block of one iteration ends.\<close>

datatype completion = Returned json | Thrown thrown | Continue

text \<open>
  \<open>retryAfter ? parseInt(retryAfter) * 1000 : retryDelay\<close>, in milliseconds. The header
  counts when it is a non-empty string.
\<close>

definition wait_time :: "platform \<Rightarrow> string option \<Rightarrow> rat \<Rightarrow> number" where
  "wait_time p retryAfter delay =
     (case retryAfter of
        None \<Rightarrow> Number delay
      | Some s \<Rightarrow>
          if s = [] then Number delay
          else times_1000 p (parseInt_number p s))"

text \<open>
  \<open>Math.min(retryDelay * 2 + Math.random() * 1000, 8000)\<close>, with \<open>x\<close> the random number.
  The delay never exceeds 8000, so every intermediate result is finite.
\<close>

definition next_delay :: "platform \<Rightarrow> rat \<Rightarrow> rat \<Rightarrow> rat" where
  "next_delay p delay x =
     min (round_finite p (round_finite p (delay * 2) + round_finite p (x * 1000))) 8000"

text \<open>The branch \<open>if (!response.ok)\<close>: it ends in \<open>continue\<close> or in \<open>throw error\<close>.\<close>

definition on_error_response ::
  "platform \<Rightarrow> Response \<Rightarrow> int \<Rightarrow> int \<Rightarrow> locals \<Rightarrow> env \<Rightarrow> completion \<times> locals \<times> env" where
  "on_error_response p r maxRetries attempt l w =
     (let err = api_error r in
      if resp_status r = 429 \<or> resp_status r = 503 then
        (let retryAfter = headers_get r ''Retry-After'';
             waitTime = wait_time p retryAfter (retryDelay l)
         in if attempt < maxRetries then
              (let err1 = err\<lparr>message := retrying_message p waitTime attempt maxRetries\<rparr>;
                   w1 = console_error (message err1) w;
                   w2 = sleep waitTime w1;
                   (x, w3) = random w2
               in (Continue,
                   \<lparr>lastError = Some (Record err1),
                    retryDelay = next_delay p (retryDelay l) x\<rparr>,
                   w3))
            else (Thrown (Record (err\<lparr>message := max_retries_message\<rparr>)), l, w))
      else if resp_status r = 401 then
        (Thrown (Record (err\<lparr>message := unauthorized_message\<rparr>)), l, w)
      else if resp_status r = 403 then
        (Thrown (Record (err\<lparr>message := forbidden_message\<rparr>)), l, w)
      else if resp_status r = 404 then
        (Thrown (Record (err\<lparr>message := not_found_message\<rparr>)), l, w)
      else (Thrown (Record err), l, w))"

text \<open>The rest of the \<open>try\<close> block, for a response that is \<open>ok\<close>.\<close>

definition on_ok_response ::
  "platform \<Rightarrow> BambooHRClient \<Rightarrow> env \<Rightarrow> string \<Rightarrow> http_method \<Rightarrow> query_params option \<Rightarrow>
   Response \<Rightarrow> completion \<times> BambooHRClient" where
  "on_ok_response p c w endpoint meth queryParams r =
     (case headers_get r ''content-type'' of
        None \<Rightarrow> (Returned (JObj []), c)
      | Some contentType \<Rightarrow>
          if contentType = [] \<or> resp_status r = 204 then (Returned (JObj []), c)
          else if str_includes contentType ''application/json'' then
            (case resp_json r of
               Inl syntax_error \<Rightarrow> (Thrown (Native syntax_error), c)
             | Inr d \<Rightarrow>
                 (Returned d,
                  if meth = GET then setCache c w (getCacheKey p endpoint queryParams) d
                  else c))
          else (Returned (JStr (resp_text r)), c))"

definition try_block ::
  "platform \<Rightarrow> BambooHRClient \<Rightarrow> env \<Rightarrow> string \<Rightarrow> http_method \<Rightarrow> json option \<Rightarrow>
   query_params option \<Rightarrow> int \<Rightarrow> int \<Rightarrow> locals \<Rightarrow>
   completion \<times> locals \<times> BambooHRClient \<times> env" where
  "try_block p c w endpoint meth body queryParams maxRetries attempt l =
     (case fetch w (build_request p c endpoint meth body queryParams) of
        (Rejected reason, w1) \<Rightarrow> (Thrown (Native reason), l, c, w1)
      | (Responded r, w1) \<Rightarrow>
          if \<not> ok r then
            (case on_error_response p r maxRetries attempt l w1 of
               (k, l1, w2) \<Rightarrow> (k, l1, c, w2))
          else
            (case on_ok_response p c w1 endpoint meth queryParams r of
               (k, c1) \<Rightarrow> (k, l, c1, w1)))"

text \<open>
  \<open>(error as ApiError).error && status !== 429 && status !== 503\<close>: a native error has no
  \<open>error\<close> property, so the test is false for it.
\<close>

fun api_error_not_rate_limit :: "thrown \<Rightarrow> bool" where
  "api_error_not_rate_limit (Native _) = False"
| "api_error_not_rate_limit (Record e) =
     (error e \<noteq> [] \<and> status e \<noteq> Some 429 \<and> status e \<noteq> Some 503)"

fun thrown_message :: "thrown \<Rightarrow> string" where
  "thrown_message (Native m) = m"
| "thrown_message (Record e) = message e"

text \<open>
  The \<open>catch\<close> block: \<open>Inl\<close> is what it throws, \<open>Inr\<close> the locals with which the loop goes
  on to the next attempt.
\<close>

definition catch_block :: "thrown \<Rightarrow> int \<Rightarrow> int \<Rightarrow> locals \<Rightarrow> thrown + locals" where
  "catch_block e maxRetries attempt l =
     (if api_error_not_rate_limit e then Inl e
      else
        (let l1 = l\<lparr>lastError := Some e\<rparr> in
         if attempt = maxRetries then
           (case lastError l1 of
              None \<Rightarrow>
                Inl (Record \<lparr>error = ''NETWORK_ERROR'',
                       message = ''Failed to connect to BambooHR API: '' @ thrown_message e,
                       status = None\<rparr>)
            | Some prev \<Rightarrow> Inl prev)
         else Inr l1))"

definition unknown_error :: ApiError where
  "unknown_error =
     \<lparr>error = ''UNKNOWN_ERROR'', message = ''An unknown error occurred'', status = None\<rparr>"

text \<open>
  The loop \<open>for (attempt = 0; attempt <= maxRetries; attempt++)\<close>, entered at \<open>attempt\<close>,
  with the fallback \<open>throw\<close> behind it.
\<close>

function retry_loop ::
  "platform \<Rightarrow> BambooHRClient \<Rightarrow> env \<Rightarrow> string \<Rightarrow> http_method \<Rightarrow> json option \<Rightarrow>
   query_params option \<Rightarrow> int \<Rightarrow> int \<Rightarrow> locals \<Rightarrow>
   (thrown + json) \<times> BambooHRClient \<times> env" where
  "retry_loop p c w endpoint meth body queryParams maxRetries attempt l =
     (if attempt \<le> maxRetries then
        (case try_block p c w endpoint meth body queryParams maxRetries attempt l of
           (Returned d, l1, c1, w1) \<Rightarrow> (Inr d, c1, w1)
         | (Continue, l1, c1, w1) \<Rightarrow>
             retry_loop p c1 w1 endpoint meth body queryParams maxRetries (attempt + 1) l1
         | (Thrown e, l1, c1, w1) \<Rightarrow>
             (case catch_block e maxRetries attempt l1 of
                Inl e1 \<Rightarrow> (Inl e1, c1, w1)
              | Inr l2 \<Rightarrow>
                  retry_loop p c1 w1 endpoint meth body queryParams maxRetries (attempt + 1) l2))
      else
        (Inl (case lastError l of None \<Rightarrow> Record unknown_error | Some prev \<Rightarrow> prev), c, w))"
  by pat_completeness auto
termination
  by (relation "measure (\<lambda>(p, c, w, endpoint, meth, body, queryParams, maxRetries, attempt, l).
        nat (maxRetries + 1 - attempt))") auto

declare retry_loop.simps [simp del]

definition makeRequest ::
  "platform \<Rightarrow> BambooHRClient \<Rightarrow> env \<Rightarrow> string \<Rightarrow> http_method \<Rightarrow> json option \<Rightarrow>
   query_params option \<Rightarrow> int \<Rightarrow> (thrown + json) \<times> BambooHRClient \<times> env" where
  "makeRequest p c w endpoint meth body queryParams maxRetries =
     (let start = \<lparr>lastError = None, retryDelay = 1000\<rparr> in
      if meth = GET then
        (case getFromCache c w (getCacheKey p endpoint queryParams) of
           (cached, c1) \<Rightarrow>
             if cached \<noteq> JNull then (Inr cached, c1, w)
             else retry_loop p c1 w endpoint meth body queryParams maxRetries 0 start)
      else retry_loop p c w endpoint meth body queryParams maxRetries 0 start)"


section \<open>getReport\<close>

datatype report_format = Json | Xml | Csv

definition getReport ::
  "platform \<Rightarrow> BambooHRClient \<Rightarrow> env \<Rightarrow> string \<Rightarrow> report_format \<Rightarrow>
   (thrown + json) \<times> BambooHRClient \<times> env" where
  "getReport p c w endpoint format =
     (let headers = getHeaders p c ''application/json'';
          headers1 =
            (if format = Xml then set_header ''Accept'' ''application/xml'' headers
             else if format = Csv then set_header ''Accept'' ''text/csv'' headers
             else headers)
      in case fetch w \<lparr>url = baseUrl c @ endpoint, req_method = GET, req_headers = headers1,
                        req_body = None\<rparr> of
           (Rejected reason, w1) \<Rightarrow> (Inl (Native reason), c, w1)
         | (Responded r, w1) \<Rightarrow>
             if \<not> ok r then (Inl (Record (api_error r)), c, w1)
             else if format = Json then
               (case resp_json r of
                  Inl syntax_error \<Rightarrow> (Inl (Native syntax_error), c, w1)
                | Inr d \<Rightarrow> (Inr d, c, w1))
             else (Inr (JStr (resp_text r)), c, w1))"

section \<open>uploadFile\<close>

text \<open>\<open>fileData: Buffer | string\<close>; a string is base64 text.\<close>

datatype file_data = Buffer string | Base64 string

definition CRLF :: string where
  "CRLF = [CHR 0x0D, CHR 0x0A]"

definition contentTypeMap :: "(string \<times> string) list" where
  "contentTypeMap =
     [(''pdf'', ''application/pdf''),
      (''doc'', ''application/msword''),
      (''docx'', ''application/vnd.openxmlformats-officedocument.wordprocessingml.document''),
      (''xls'', ''application/vnd.ms-excel''),
      (''xlsx'', ''application/vnd.openxmlformats-officedocument.spreadsheetml.sheet''),
      (''png'', ''image/png''),
      (''jpg'', ''image/jpeg''),
      (''jpeg'', ''image/jpeg''),
      (''gif'', ''image/gif''),
      (''txt'', ''text/plain'')]"

text \<open>
  \<open>contentTypeMap\<close> is an object literal, so \<open>contentTypeMap[key]\<close> finds the object's own
  keys and, behind them, the properties every object inherits from \<open>Object.prototype\<close>:
  built-in functions and, under \<open>__proto__\<close>, the prototype object itself. All of them
  are truthy, and a template string renders them with \<open>String()\<close>, as listed here.
\<close>

definition native_function :: "string \<Rightarrow> string" where
  "native_function name = ''function '' @ name @ ''() { [native code] }''"

definition object_prototype :: "(string \<times> string) list" where
  "object_prototype =
     [(''constructor'', native_function ''Object''),
      (''__defineGetter__'', native_function ''__defineGetter__''),
      (''__defineSetter__'', native_function ''__defineSetter__''),
      (''hasOwnProperty'', native_function ''hasOwnProperty''),
      (''__lookupGetter__'', native_function ''__lookupGetter__''),
      (''__lookupSetter__'', native_function ''__lookupSetter__''),
      (''isPrototypeOf'', native_function ''isPrototypeOf''),
      (''propertyIsEnumerable'', native_function ''propertyIsEnumerable''),
      (''toString'', native_function ''toString''),
      (''valueOf'', native_function ''valueOf''),
      (''__proto__'', ''[object Object]''),
      (''toLocaleString'', native_function ''toLocaleString'')]"

definition property_get :: "(string \<times> string) list \<Rightarrow> string \<Rightarrow> string option" where
  "property_get obj key =
     (case map_of obj key of
        Some v \<Rightarrow> Some v
      | None \<Rightarrow> map_of object_prototype key)"

text \<open>\<open>fileName.split('.').pop()?.toLowerCase() || ''\<close>\<close>

definition extension :: "string \<Rightarrow> string" where
  "extension fileName = or_else (map_option toLowerCase (pop (split fileName CHR ''.''))) []"

text \<open>\<open>contentTypeMap[extension] || 'application/octet-stream'\<close>\<close>

definition fileContentType :: "string \<Rightarrow> string" where
  "fileContentType fileName =
     or_else (property_get contentTypeMap (extension fileName)) ''application/octet-stream''"

definition file_part_head :: "string \<Rightarrow> string \<Rightarrow> string" where
  \<open>file_part_head boundary fileName =
     ''--'' @ boundary @ CRLF @
     ''Content-Disposition: form-data; name="file"; filename="'' @ fileName @ ''"'' @ CRLF @
     ''Content-Type: '' @ fileContentType fileName @ CRLF @ CRLF\<close>

definition categoryPart :: "string \<Rightarrow> string option \<Rightarrow> string" where
  \<open>categoryPart boundary categoryId =
     (case categoryId of
        None \<Rightarrow> []
      | Some cat \<Rightarrow>
          if cat = [] then []
          else ''--'' @ boundary @ CRLF @
               ''Content-Disposition: form-data; name="category"'' @ CRLF @ CRLF @
               cat @ CRLF)\<close>

definition fullBody :: "string \<Rightarrow> string \<Rightarrow> string \<Rightarrow> string option \<Rightarrow> string" where
  "fullBody boundary fileBuffer fileName categoryId =
     (let prefixBuffer = file_part_head boundary fileName;
          suffixBuffer = CRLF @ categoryPart boundary categoryId @ ''--'' @ boundary @ ''--'' @ CRLF
      in prefixBuffer @ fileBuffer @ suffixBuffer)"

definition uploadFile ::
  "platform \<Rightarrow> BambooHRClient \<Rightarrow> env \<Rightarrow> string \<Rightarrow> file_data \<Rightarrow> string \<Rightarrow> string option \<Rightarrow>
   (thrown + string option) \<times> BambooHRClient \<times> env" where
  "uploadFile p c w endpoint fileData fileName categoryId =
     (let boundary = ''----BambooHRFormBoundary'' @ show_int (now w);
          fileBuffer = (case fileData of Base64 s \<Rightarrow> base64_decode p s | Buffer b \<Rightarrow> b);
          payload = fullBody boundary fileBuffer fileName categoryId;
          headers =
            [(''Authorization'', getAuthHeader p c),
             (''Content-Type'', ''multipart/form-data; boundary='' @ boundary),
             (''Content-Length'', show_nat (length payload))]
      in case fetch w \<lparr>url = baseUrl c @ endpoint, req_method = POST, req_headers = headers,
                        req_body = Some payload\<rparr> of
           (Rejected reason, w1) \<Rightarrow> (Inl (Native reason), c, w1)
         | (Responded r, w1) \<Rightarrow>
             if \<not> ok r then (Inl (Record (api_error r)), c, w1)
             else
               (let location = headers_get r ''Location'';
                    fileId =
                      (case location of
                         None \<Rightarrow> None
                       | Some loc \<Rightarrow> if loc = [] then None else pop (split loc CHR ''/''))
                in (Inr fileId, c, w1)))"


section \<open>Observations used in the statements\<close>

text \<open>
  The requests handed to \<open>fetch\<close> and the delays handed to \<open>sleep\<close>, in order, as read off a
  trace; the world right after one \<open>fetch\<close>; the world and the loop's locals after the
  wait of a rate-limit retry; and the error object with which a response that is not
  \<open>ok\<close> leaves \<open>makeRequest\<close> when it is thrown to the caller.
\<close>

definition fetches :: "event list \<Rightarrow> Request list" where
  "fetches tr = concat (map (\<lambda>e. case e of Fetch rq \<Rightarrow> [rq] | _ \<Rightarrow> []) tr)"

definition sleeps :: "event list \<Rightarrow> number list" where
  "sleeps tr = concat (map (\<lambda>e. case e of Sleep ms \<Rightarrow> [ms] | _ \<Rightarrow> []) tr)"

definition fetched :: "env \<Rightarrow> Request \<Rightarrow> env" where
  "fetched w rq = snd (fetch w rq)"

definition terminal_message :: "Response \<Rightarrow> string" where
  "terminal_message r =
     (if resp_status r = 429 \<or> resp_status r = 503 then max_retries_message
      else if resp_status r = 401 then unauthorized_message
      else if resp_status r = 403 then forbidden_message
      else if resp_status r = 404 then not_found_message
      else error_message r)"

definition terminal_error :: "Response \<Rightarrow> ApiError" where
  "terminal_error r =
     \<lparr>error = ''API_ERROR'', message = terminal_message r, status = Some (resp_status r)\<rparr>"

definition waited :: "platform \<Rightarrow> Response \<Rightarrow> int \<Rightarrow> int \<Rightarrow> locals \<Rightarrow> env \<Rightarrow> env" where
  "waited p r maxRetries attempt l w =
     snd (random (sleep (wait_time p (headers_get r ''Retry-After'') (retryDelay l))
       (console_error
          (retrying_message p (wait_time p (headers_get r ''Retry-After'') (retryDelay l))
             attempt maxRetries) w)))"


section \<open>Example inputs\<close>

text \<open>
  Concrete inputs on which the statements below are instantiated: a platform whose library
  functions are simple stand-ins, a client built by the constructor, a world whose network
  answers from a finite script (and refuses the connection after it), and responses given
  by status, headers, JSON body and text.
\<close>

definition example_platform :: platform where
  "example_platform =
     \<lparr>json_stringify_params = (\<lambda>q. concat (map fst q)),
      json_stringify = (\<lambda>j. ''{}''),
      url_search_params = (\<lambda>q. concat (map fst q)),
      number_to_string = (\<lambda>n. ''n''),
      round_double = (\<lambda>x. x),
      base64_encode = (\<lambda>s. s),
      base64_decode = (\<lambda>s. s)\<rparr>"

definition example_client :: BambooHRClient where
  "example_client = new_client \<lparr>apiKey = ''key'', companyDomain = ''acme''\<rparr>"

definition scripted :: "(nat \<times> fetch_outcome) list \<Rightarrow> nat \<Rightarrow> nat \<times> fetch_outcome" where
  "scripted script i = (if i < length script then script ! i else (0, Rejected ''fetch failed''))"

definition example_env :: "(nat \<times> fetch_outcome) list \<Rightarrow> env" where
  "example_env script =
     \<lparr>now = 1000000, net = scripted script, nfetch = 0, rnd = (\<lambda>i. 1 / 2), nrand = 0,
      trace = []\<rparr>"

definition response :: "nat \<Rightarrow> (string \<times> string) list \<Rightarrow> string + json \<Rightarrow> string \<Rightarrow> Response" where
  "response st hs j t =
     \<lparr>resp_status = st, resp_statusText = ''status text'', resp_headers = map_of hs,
      resp_json = j, resp_text = t\<rparr>"

text \<open>The example client with one cache entry, for \<open>/employees/7\<close>.\<close>

definition example_cached_client :: "json \<Rightarrow> int \<Rightarrow> BambooHRClient" where
  "example_cached_client d t =
     example_client\<lparr>cache := [''/employees/7'' \<mapsto> \<lparr>data = d, timestamp = t\<rparr>]\<rparr>"

definition no_json :: "string + json" where
  "no_json = Inl ''Unexpected end of JSON input''"




section \<open>Steps of the retry loop\<close>

lemma fetches_append [simp]: "fetches (xs @ ys) = fetches xs @ fetches ys"
  by (simp add: fetches_def)

lemma sleeps_append [simp]: "sleeps (xs @ ys) = sleeps xs @ sleeps ys"
  by (simp add: sleeps_def)

lemma fetches_simps [simp]:
  "fetches [] = []" "fetches (Fetch rq # tr) = rq # fetches tr"
  "fetches (Sleep ms # tr) = fetches tr" "fetches (ConsoleError s # tr) = fetches tr"
  by (simp_all add: fetches_def)

lemma sleeps_simps [simp]:
  "sleeps [] = []" "sleeps (Fetch rq # tr) = sleeps tr"
  "sleeps (Sleep ms # tr) = ms # sleeps tr" "sleeps (ConsoleError s # tr) = sleeps tr"
  by (simp_all add: sleeps_def)

lemma fetch_eq: "net w (nfetch w) = (lat, out) \<Longrightarrow> fetch w rq = (out, fetched w rq)"
  by (simp add: fetch_def fetched_def)

lemma fetched_fields [simp]:
  "net (fetched w rq) = net w" "nfetch (fetched w rq) = Suc (nfetch w)"
  "rnd (fetched w rq) = rnd w" "nrand (fetched w rq) = nrand w"
  "trace (fetched w rq) = trace w @ [Fetch rq]"
  "now (fetched w rq) = now w + int (fst (net w (nfetch w)))"
  by (simp_all add: fetched_def fetch_def split: prod.splits)

lemma try_block_rejected:
  "net w (nfetch w) = (lat, Rejected m) \<Longrightarrow>
   try_block p c w endpoint meth body qp maxRetries attempt l =
     (Thrown (Native m), l, c, fetched w (build_request p c endpoint meth body qp))"
  by (simp add: try_block_def fetch_eq)

lemma loop_rejected_retry:
  "net w (nfetch w) = (lat, Rejected m) \<Longrightarrow> attempt < maxRetries \<Longrightarrow>
   retry_loop p c w endpoint meth body qp maxRetries attempt l =
   retry_loop p c (fetched w (build_request p c endpoint meth body qp)) endpoint meth body qp
     maxRetries (attempt + 1) (l\<lparr>lastError := Some (Native m)\<rparr>)"
  by (subst retry_loop.simps) (simp add: try_block_rejected catch_block_def)

lemma loop_rejected_last:
  "net w (nfetch w) = (lat, Rejected m) \<Longrightarrow> attempt = maxRetries \<Longrightarrow>
   retry_loop p c w endpoint meth body qp maxRetries attempt l =
   (Inl (Native m), c, fetched w (build_request p c endpoint meth body qp))"
  by (subst retry_loop.simps) (simp add: try_block_rejected catch_block_def)

lemma rate_limited_not_ok: "resp_status r = 429 \<or> resp_status r = 503 \<Longrightarrow> \<not> ok r"
  by (auto simp: ok_def)

lemma loop_http_error:
  assumes "net w (nfetch w) = (lat, Responded r)" "\<not> ok r"
    "resp_status r \<noteq> 429" "resp_status r \<noteq> 503" "attempt \<le> maxRetries"
  shows "retry_loop p c w endpoint meth body qp maxRetries attempt l =
     (Inl (Record (terminal_error r)), c, fetched w (build_request p c endpoint meth body qp))"
  using assms
  by (subst retry_loop.simps)
     (simp add: try_block_def fetch_eq on_error_response_def api_error_def catch_block_def
        terminal_error_def terminal_message_def)

lemma loop_rate_limited_last:
  assumes "net w (nfetch w) = (lat, Responded r)" "resp_status r = 429 \<or> resp_status r = 503"
    "attempt = maxRetries"
  shows "retry_loop p c w endpoint meth body qp maxRetries attempt l =
     (Inl (Record (terminal_error r)), c, fetched w (build_request p c endpoint meth body qp))"
  using assms rate_limited_not_ok[of r]
  by (subst retry_loop.simps)
     (auto simp add: try_block_def fetch_eq on_error_response_def api_error_def catch_block_def
        terminal_error_def terminal_message_def)


lemma waited_fields [simp]:
  "net (waited p r m a l w) = net w" "nfetch (waited p r m a l w) = nfetch w"
  "rnd (waited p r m a l w) = rnd w" "nrand (waited p r m a l w) = Suc (nrand w)"
  "trace (waited p r m a l w) = trace w @
     [ConsoleError (retrying_message p (wait_time p (headers_get r ''Retry-After'') (retryDelay l)) a m),
      Sleep (wait_time p (headers_get r ''Retry-After'') (retryDelay l))]"
  "now (waited p r m a l w) = now w + timer_ms (wait_time p (headers_get r ''Retry-After'') (retryDelay l))"
  by (simp_all add: waited_def random_def sleep_def console_error_def)

lemma loop_ok_empty:
  assumes "net w (nfetch w) = (lat, Responded r)" "ok r" "attempt \<le> maxRetries"
    "\<not> truthy_str (headers_get r ''content-type'') \<or> resp_status r = 204"
  shows "retry_loop p c w endpoint meth body qp maxRetries attempt l =
     (Inr (JObj []), c, fetched w (build_request p c endpoint meth body qp))"
  using assms
  by (subst retry_loop.simps)
     (auto simp add: try_block_def fetch_eq on_ok_response_def split: option.splits)

lemma loop_ok_json:
  assumes "net w (nfetch w) = (lat, Responded r)" "ok r" "attempt \<le> maxRetries"
    "headers_get r ''content-type'' = Some ct" "ct \<noteq> []" "resp_status r \<noteq> 204"
    "str_includes ct ''application/json''" "resp_json r = Inr d"
  shows "retry_loop p c w endpoint meth body qp maxRetries attempt l =
     (Inr d,
      if meth = GET
      then setCache c (fetched w (build_request p c endpoint meth body qp))
             (getCacheKey p endpoint qp) d
      else c,
      fetched w (build_request p c endpoint meth body qp))"
  using assms
  by (subst retry_loop.simps) (simp add: try_block_def fetch_eq on_ok_response_def)

lemma loop_ok_text:
  assumes "net w (nfetch w) = (lat, Responded r)" "ok r" "attempt \<le> maxRetries"
    "headers_get r ''content-type'' = Some ct" "ct \<noteq> []" "resp_status r \<noteq> 204"
    "\<not> str_includes ct ''application/json''"
  shows "retry_loop p c w endpoint meth body qp maxRetries attempt l =
     (Inr (JStr (resp_text r)), c, fetched w (build_request p c endpoint meth body qp))"
  using assms
  by (subst retry_loop.simps) (simp add: try_block_def fetch_eq on_ok_response_def)

lemma build_request_cache [simp]:
  "build_request p (c\<lparr>cache := k\<rparr>) endpoint meth body qp = build_request p c endpoint meth body qp"
  by (simp add: build_request_def getHeaders_def getAuthHeader_def)

lemma try_block_client:
  "meth \<noteq> GET \<Longrightarrow> try_block p c w endpoint meth body qp maxRetries attempt l = (k, l1, c1, w1)
   \<Longrightarrow> c1 = c"
  by (auto simp: try_block_def on_ok_response_def
        split: prod.splits fetch_outcome.splits if_splits option.splits sum.splits)

lemma try_block_cache_indep:
  "meth \<noteq> GET \<Longrightarrow> try_block p c w endpoint meth body qp maxRetries attempt l = (k, l1, c1, w1)
   \<Longrightarrow> try_block p (c\<lparr>cache := m\<rparr>) w endpoint meth body qp maxRetries attempt l
        = (k, l1, c\<lparr>cache := m\<rparr>, w1)"
  by (auto simp: try_block_def on_ok_response_def
        split: prod.splits fetch_outcome.splits if_splits option.splits sum.splits)

lemma retry_loop_client:
  "meth \<noteq> GET \<Longrightarrow>
   fst (snd (retry_loop p c w endpoint meth body qp maxRetries attempt l)) = c"
proof (induction p c w endpoint meth body qp maxRetries attempt l rule: retry_loop.induct)
  case (1 p c w endpoint meth body qp maxRetries attempt l)
  show ?case
  proof (cases "attempt \<le> maxRetries")
    case False
    then show ?thesis by (subst retry_loop.simps) simp
  next
    case True
    obtain k l1 c1 w1 where tb:
      "try_block p c w endpoint meth body qp maxRetries attempt l = (k, l1, c1, w1)"
      by (cases "try_block p c w endpoint meth body qp maxRetries attempt l") auto
    have c1: "c1 = c" using try_block_client[OF "1.prems" tb] .
    show ?thesis
    proof (cases k)
      case (Returned d)
      then show ?thesis using True tb c1 by (subst retry_loop.simps) simp
    next
      case Continue
      then show ?thesis
        using True tb c1 "1.IH"(2)[OF True tb[symmetric] Continue refl refl "1.prems"]
        by (subst retry_loop.simps) simp
    next
      case (Thrown e)
      show ?thesis
      proof (cases "catch_block e maxRetries attempt l1")
        case (Inl e1)
        then show ?thesis using True tb c1 Thrown by (subst retry_loop.simps) simp
      next
        case (Inr l2)
        then show ?thesis
          using True tb c1 Thrown "1.IH"(1)[OF True tb[symmetric] Thrown refl refl Inr "1.prems"]
          by (subst retry_loop.simps) simp
      qed
    qed
  qed
qed

lemma getFromCache_hit:
  "cache c key = Some e \<Longrightarrow> now w - timestamp e \<le> cacheTTL \<Longrightarrow> getFromCache c w key = (data e, c)"
  by (simp add: getFromCache_def)

lemma getFromCache_stale:
  "cache c key = Some e \<Longrightarrow> now w - timestamp e > cacheTTL \<Longrightarrow>
   getFromCache c w key = (JNull, c\<lparr>cache := (cache c)(key := None)\<rparr>)"
  by (simp add: getFromCache_def)

lemma getFromCache_absent: "cache c key = None \<Longrightarrow> getFromCache c w key = (JNull, c)"
  by (simp add: getFromCache_def)

lemma example_net [simp]:
  "net (example_env script) = scripted script" "nfetch (example_env script) = 0"
  "trace (example_env script) = []" "now (example_env script) = 1000000"
  "nrand (example_env script) = 0" "rnd (example_env script) i = 1 / 2"
  by (simp_all add: example_env_def)

lemma scripted_simps [simp]:
  "scripted (x # xs) 0 = x" "scripted (x # xs) (Suc i) = scripted xs i"
  "scripted [] i = (0, Rejected ''fetch failed'')"
  by (simp_all add: scripted_def)

lemma response_fields [simp]:
  "resp_status (response st hs j t) = st" "resp_json (response st hs j t) = j"
  "resp_text (response st hs j t) = t" "resp_statusText (response st hs j t) = ''status text''"
  "resp_headers (response st hs j t) = map_of hs"
  by (simp_all add: response_def)

section \<open>Claims about the request executor\<close>

text \<open>
  Claim C4. A response that is not \<open>ok\<close> and whose status is neither 429 nor 503 (401, 403
  and 404 among them) ends \<open>makeRequest\<close> at once: at whatever attempt it arrives, the loop
  throws the error for that response without another \<open>fetch\<close> and without a \<open>sleep\<close>.
  When it is the answer to the first attempt of a call that reaches the network (a verb
  other than GET, or a GET whose cache lookup gives nothing), the call adds exactly
  one event to the trace, the one \<open>fetch\<close>, and the caller gets the error, which carries
  the response's status.
\<close>

theorem non_retryable_status_fails_at_once:
  assumes "net w (nfetch w) = (lat, Responded r)"
    and "\<not> ok r" and "resp_status r \<noteq> 429" and "resp_status r \<noteq> 503"
    and "attempt \<le> maxRetries" and "0 \<le> maxRetries"
    and "meth = GET \<longrightarrow> fst (getFromCache c w (getCacheKey p endpoint qp)) = JNull"
  shows "retry_loop p c w endpoint meth body qp maxRetries attempt l =
           (Inl (Record (terminal_error r)), c,
            fetched w (build_request p c endpoint meth body qp))
       \<and> (\<exists>c' w'. makeRequest p c w endpoint meth body qp maxRetries =
              (Inl (Record (terminal_error r)), c', w')
            \<and> trace w' = trace w @ [Fetch (build_request p c endpoint meth body qp)]
            \<and> nfetch w' = Suc (nfetch w))
       \<and> error (terminal_error r) = ''API_ERROR''
       \<and> status (terminal_error r) = Some (resp_status r)"
proof -
  have loop: "\<And>c a l. a \<le> maxRetries \<Longrightarrow>
      retry_loop p c w endpoint meth body qp maxRetries a l =
        (Inl (Record (terminal_error r)), c,
         fetched w (build_request p c endpoint meth body qp))"
    using assms(1-4) by (rule loop_http_error)
  have mk: "\<exists>c' w'. makeRequest p c w endpoint meth body qp maxRetries =
              (Inl (Record (terminal_error r)), c', w')
            \<and> trace w' = trace w @ [Fetch (build_request p c endpoint meth body qp)]
            \<and> nfetch w' = Suc (nfetch w)"
  proof (cases "meth = GET")
    case False
    then show ?thesis using loop[OF assms(6)] by (simp add: makeRequest_def)
  next
    case True
    obtain v c1 where g: "getFromCache c w (getCacheKey p endpoint qp) = (v, c1)"
      by (cases "getFromCache c w (getCacheKey p endpoint qp)") auto
    have v: "v = JNull" using assms(7) True g by simp
    have c1: "build_request p c1 endpoint meth body qp = build_request p c endpoint meth body qp"
      using g by (auto simp: getFromCache_def split: option.splits if_splits)
    show ?thesis using True g v c1 loop[OF assms(6), of c1] by (simp add: makeRequest_def)
  qed
  show ?thesis using loop[OF assms(5)] mk by (simp add: terminal_error_def)
qed

theorem non_retryable_status_fails_at_once_witness:
  "\<not> ok (response 401 [] no_json []) \<and>
   makeRequest example_platform example_client
     (example_env [(40, Responded (response 401 [] no_json []))])
     ''/employees/7'' GET None None 3
   = (Inl (Record \<lparr>error = ''API_ERROR'', message = unauthorized_message, status = Some 401\<rparr>),
      example_client,
      fetched (example_env [(40, Responded (response 401 [] no_json []))])
        (build_request example_platform example_client ''/employees/7'' GET None None))"
  using non_retryable_status_fails_at_once
    [where w = "example_env [(40, Responded (response 401 [] no_json []))]" and lat = 40
       and r = "response 401 [] no_json []" and attempt = 0 and maxRetries = 3
       and meth = GET and c = example_client and p = example_platform
       and endpoint = "''/employees/7''" and qp = None and body = None]
  by (simp add: ok_def makeRequest_def getFromCache_def example_client_def new_client_def
        terminal_error_def terminal_message_def)

lemma split_acc_last_nosep:
  "sep \<notin> set s \<Longrightarrow> last (split_acc sep s cur acc) = rev cur @ s"
  by (induction s arbitrary: cur acc) auto

lemma split_acc_skip:
  "\<exists>acc'. split_acc sep (pre @ sep # seg) cur acc = split_acc sep seg [] acc'"
  by (induction pre arbitrary: cur acc) auto

lemma split_acc_last_sep:
  assumes "sep \<in> set s"
  shows "\<exists>pre seg. s = pre @ sep # seg \<and> sep \<notin> set seg \<and> last (split_acc sep s cur acc) = seg"
proof -
  obtain pre seg where s: "s = pre @ sep # seg" and seg: "sep \<notin> set seg"
    using split_list_last[OF assms] by blast
  obtain acc' where "split_acc sep s cur acc = split_acc sep seg [] acc'"
    using split_acc_skip[of sep pre seg cur acc] s by auto
  then have "last (split_acc sep s cur acc) = seg"
    using split_acc_last_nosep[OF seg, of "[]" acc'] by simp
  then show ?thesis using s seg by blast
qed

lemma split_acc_nonempty: "split_acc sep s cur acc \<noteq> []"
  by (induction s arbitrary: cur acc) auto

lemma pop_split:
  "\<exists>seg. pop (split s sep) = Some seg \<and> sep \<notin> set seg \<and> (s = seg \<or> (\<exists>pre. s = pre @ sep # seg))"
proof -
  have ne: "split s sep \<noteq> []" by (simp add: split_def split_acc_nonempty)
  then have p: "pop (split s sep) = Some (last (split_acc sep s [] []))"
    by (simp add: pop_def split_def split: list.splits)
  show ?thesis
  proof (cases "sep \<in> set s")
    case False
    then show ?thesis using p split_acc_last_nosep[of sep s "[]" "[]"] by simp
  next
    case True
    then show ?thesis using p split_acc_last_sep[of sep s "[]" "[]"] by auto
  qed
qed

section \<open>Claims about getReport and uploadFile\<close>

text \<open>
  Claim C10. \<open>getReport\<close>, for every format (\<open>json\<close> included), goes past the cache and
  the retry loop: the client, and with it the cache map, is returned as it was; the
  result and the effects are the same whatever the cache holds, so the cache is not read;
  the call makes exactly one \<open>fetch\<close> and adds nothing else to the trace (no \<open>sleep\<close>);
  and a response that is not \<open>ok\<close>, 429 and 503 included, is thrown at once as an
  \<open>API_ERROR\<close> record with the response's status.
\<close>

theorem getReport_bypasses_cache_and_retry:
  "fst (snd (getReport p c w endpoint format)) = c
   \<and> getReport p (c\<lparr>cache := m\<rparr>) w endpoint format =
       (fst (getReport p c w endpoint format), c\<lparr>cache := m\<rparr>,
        snd (snd (getReport p c w endpoint format)))
   \<and> (\<exists>rq. trace (snd (snd (getReport p c w endpoint format))) = trace w @ [Fetch rq])
   \<and> nfetch (snd (snd (getReport p c w endpoint format))) = Suc (nfetch w)
   \<and> (net w (nfetch w) = (lat, Responded r) \<and> \<not> ok r \<longrightarrow>
        fst (getReport p c w endpoint format) =
          Inl (Record \<lparr>error = ''API_ERROR'', message = error_message r,
                        status = Some (resp_status r)\<rparr>))"
proof -
  obtain lat' out where n: "net w (nfetch w) = (lat', out)"
    by (cases "net w (nfetch w)") auto
  show ?thesis
    using n
    by (cases out)
       (auto simp: getReport_def Let_def fetch_eq getHeaders_def getAuthHeader_def api_error_def
          split: sum.splits)
qed


theorem getReport_bypasses_cache_and_retry_witness:
  "net (example_env [(25, Responded (response 429 [(''retry-after'', ''2'')] no_json []))]) 0 =
     (25, Responded (response 429 [(''retry-after'', ''2'')] no_json []))
   \<and> \<not> ok (response 429 [(''retry-after'', ''2'')] no_json [])
   \<and> fst (getReport example_platform example_client
          (example_env [(25, Responded (response 429 [(''retry-after'', ''2'')] no_json []))])
          ''/reports/1'' Json) =
       Inl (Record \<lparr>error = ''API_ERROR'', message = ''HTTP 429: status text'',
                     status = Some 429\<rparr>)"
  using getReport_bypasses_cache_and_retry
    [where w = "example_env [(25, Responded (response 429 [(''retry-after'', ''2'')] no_json []))]"
       and lat = 25 and r = "response 429 [(''retry-after'', ''2'')] no_json []"
       and p = example_platform and c = example_client and endpoint = "''/reports/1''"
       and format = Json]
  by (simp add: ok_def error_message_def headers_get_def or_else_def toLowerCase_def
        lower_char_def digit_char_def)

text \<open>
  Claim C8. \<open>uploadFile\<close> makes exactly one \<open>fetch\<close> whatever happens (no retry) and leaves
  the client as it was. On an \<open>ok\<close> response with a non-empty \<open>Location\<close> header the
  result is the id made of the header's trailing path segment: the text after the last
  \<open>/\<close>, or the whole value when it has no \<open>/\<close>. With no \<open>Location\<close> header (or an empty
  one) the call still succeeds and the id is absent. A response that is not \<open>ok\<close> is
  thrown as an \<open>API_ERROR\<close> record whose message is the vendor's error header when that
  is present and non-empty, and \<open>HTTP <status>: <statusText>\<close> otherwise.
\<close>

theorem uploadFile_result:
  "(\<exists>rq. trace (snd (snd (uploadFile p c w endpoint fileData fileName categoryId))) =
            trace w @ [Fetch rq])
   \<and> fst (snd (uploadFile p c w endpoint fileData fileName categoryId)) = c
   \<and> (net w (nfetch w) = (lat, Responded r) \<and> ok r \<and>
        headers_get r ''Location'' = Some loc \<and> loc \<noteq> [] \<longrightarrow>
        (\<exists>seg. fst (uploadFile p c w endpoint fileData fileName categoryId) = Inr (Some seg)
           \<and> CHR ''/'' \<notin> set seg
           \<and> (loc = seg \<or> (\<exists>pre. loc = pre @ CHR ''/'' # seg))))
   \<and> (net w (nfetch w) = (lat, Responded r) \<and> ok r \<and>
        \<not> truthy_str (headers_get r ''Location'') \<longrightarrow>
        fst (uploadFile p c w endpoint fileData fileName categoryId) = Inr None)
   \<and> (net w (nfetch w) = (lat, Responded r) \<and> \<not> ok r \<longrightarrow>
        fst (uploadFile p c w endpoint fileData fileName categoryId) =
          Inl (Record \<lparr>error = ''API_ERROR'',
                 message = or_else (headers_get r ''X-BambooHR-Error-Message'')
                             (''HTTP '' @ show_nat (resp_status r) @ '': '' @ resp_statusText r),
                 status = Some (resp_status r)\<rparr>))"
proof -
  obtain lat' out where n: "net w (nfetch w) = (lat', out)"
    by (cases "net w (nfetch w)") auto
  have tr: "\<exists>rq. trace (snd (snd (uploadFile p c w endpoint fileData fileName categoryId))) =
            trace w @ [Fetch rq]"
    using n by (cases out) (auto simp: uploadFile_def Let_def fetch_eq split: option.splits)
  have cl: "fst (snd (uploadFile p c w endpoint fileData fileName categoryId)) = c"
    using n by (cases out) (auto simp: uploadFile_def Let_def fetch_eq split: option.splits)
  have loc: "\<exists>seg. fst (uploadFile p c w endpoint fileData fileName categoryId) = Inr (Some seg)
           \<and> CHR ''/'' \<notin> set seg \<and> (loc = seg \<or> (\<exists>pre. loc = pre @ CHR ''/'' # seg))"
    if "net w (nfetch w) = (lat, Responded r)" "ok r" "headers_get r ''Location'' = Some loc"
       "loc \<noteq> []"
    using that pop_split[of loc "CHR ''/''"] by (auto simp: uploadFile_def Let_def fetch_eq)
  have noloc: "fst (uploadFile p c w endpoint fileData fileName categoryId) = Inr None"
    if "net w (nfetch w) = (lat, Responded r)" "ok r" "\<not> truthy_str (headers_get r ''Location'')"
    using that by (cases "headers_get r ''Location''") (auto simp: uploadFile_def Let_def fetch_eq)
  have err: "fst (uploadFile p c w endpoint fileData fileName categoryId) =
          Inl (Record \<lparr>error = ''API_ERROR'',
                 message = or_else (headers_get r ''X-BambooHR-Error-Message'')
                             (''HTTP '' @ show_nat (resp_status r) @ '': '' @ resp_statusText r),
                 status = Some (resp_status r)\<rparr>)"
    if "net w (nfetch w) = (lat, Responded r)" "\<not> ok r"
    using that by (simp add: uploadFile_def Let_def fetch_eq api_error_def error_message_def)
  show ?thesis using tr cl loc noloc err by blast
qed

theorem uploadFile_result_witness:
  "ok (response 201 [(''location'', ''/files/987'')] no_json [])
   \<and> fst (uploadFile example_platform example_client
          (example_env [(30, Responded (response 201 [(''location'', ''/files/987'')] no_json []))])
          ''/employees/7/files'' (Buffer ''%PDF'') ''report.pdf'' (Some ''42'')) =
       Inr (Some ''987'')"
proof -
  let ?r = "response 201 [(''location'', ''/files/987'')] no_json []"
  let ?w = "example_env [(30, Responded ?r)]"
  have h: "net ?w (nfetch ?w) = (30, Responded ?r) \<and> ok ?r \<and>
        headers_get ?r ''Location'' = Some ''/files/987'' \<and> ''/files/987'' \<noteq> []"
    by (simp add: ok_def headers_get_def toLowerCase_def lower_char_def)
  obtain seg where seg: "fst (uploadFile example_platform example_client ?w
          ''/employees/7/files'' (Buffer ''%PDF'') ''report.pdf'' (Some ''42'')) = Inr (Some seg)"
     "CHR ''/'' \<notin> set seg" "''/files/987'' = seg \<or> (\<exists>pre. ''/files/987'' = pre @ CHR ''/'' # seg)"
    using uploadFile_result[where w = ?w and lat = 30 and r = ?r and loc = "''/files/987''"
        and p = example_platform and c = example_client and endpoint = "''/employees/7/files''"
        and fileData = "Buffer ''%PDF''" and fileName = "''report.pdf''"
        and categoryId = "Some ''42''"] h
    by blast
  have "fst (uploadFile example_platform example_client ?w
          ''/employees/7/files'' (Buffer ''%PDF'') ''report.pdf'' (Some ''42'')) = Inr (Some ''987'')"
    by (simp add: uploadFile_def Let_def fetch_def headers_get_def toLowerCase_def lower_char_def
          ok_def split_def pop_def)
  then show ?thesis using h seg by simp
qed

section \<open>Claims about responses, retries and errors\<close>

lemma str_includes_iff: "str_includes hay needle \<longleftrightarrow> (\<exists>a b. hay = a @ needle @ b)"
proof (induction hay)
  case Nil
  then show ?case by auto
next
  case (Cons c cs)
  show ?case
  proof
    assume "str_includes (c # cs) needle"
    then consider "prefix needle (c # cs)" | "str_includes cs needle" by auto
    then show "\<exists>a b. c # cs = a @ needle @ b"
    proof cases
      case 1
      then obtain b where "c # cs = needle @ b" by (auto simp: prefix_def)
      then have "c # cs = [] @ needle @ b" by simp
      then show ?thesis by blast
    next
      case 2
      then obtain a b where "cs = a @ needle @ b" using Cons.IH by blast
      then have "c # cs = (c # a) @ needle @ b" by simp
      then show ?thesis by blast
    qed
  next
    assume "\<exists>a b. c # cs = a @ needle @ b"
    then obtain a b where ab: "c # cs = a @ needle @ b" by blast
    show "str_includes (c # cs) needle"
    proof (cases a)
      case Nil
      then have "prefix needle (c # cs)" using ab by (simp add: prefix_def)
      then show ?thesis by simp
    next
      case (Cons x xs)
      then have "cs = xs @ needle @ b" using ab by simp
      then have "str_includes cs needle" using Cons.IH by blast
      then show ?thesis by simp
    qed
  qed
qed


lemma makeRequest_not_GET:
  "meth \<noteq> GET \<Longrightarrow> makeRequest p c w endpoint meth body qp maxRetries =
     retry_loop p c w endpoint meth body qp maxRetries 0 \<lparr>lastError = None, retryDelay = 1000\<rparr>"
  by (simp add: makeRequest_def)








lemma timer_ms_positive: "1 \<le> timer_ms ms"
proof (cases ms)
  case (Number d)
  have "1 \<le> d \<Longrightarrow> 1 \<le> \<lfloor>d\<rfloor>" by (simp add: le_floor_iff)
  then show ?thesis using Number by (simp add: timer_ms_def)
qed (simp_all add: timer_ms_def)














text \<open>
  Claim C5, as amended. A network-level failure (a rejected \<open>fetch\<close>) at any attempt, the
  first one included and whether or not a rate-limit retry came before it, is retried at
  once while attempts remain (\<open>attempt < maxRetries\<close>): the next attempt starts with no
  sleep and with the backoff delay unchanged. Only when it happens at the last attempt
  (\<open>attempt = maxRetries\<close>) is an error thrown to the caller, after that one \<open>fetch\<close>.
\<close>

theorem network_failure_retried_until_exhausted:
  assumes "net w (nfetch w) = (lat, Rejected reason)"
  shows "(attempt < maxRetries \<longrightarrow>
           retry_loop p c w endpoint meth body qp maxRetries attempt l =
             retry_loop p c (fetched w (build_request p c endpoint meth body qp))
               endpoint meth body qp maxRetries (attempt + 1)
               (l\<lparr>lastError := Some (Native reason)\<rparr>))
       \<and> (attempt = maxRetries \<longrightarrow>
           (\<exists>e. retry_loop p c w endpoint meth body qp maxRetries attempt l =
                  (Inl e, c, fetched w (build_request p c endpoint meth body qp))))
       \<and> trace (fetched w (build_request p c endpoint meth body qp)) =
           trace w @ [Fetch (build_request p c endpoint meth body qp)]"
  using loop_rejected_retry[OF assms, of attempt maxRetries p c endpoint meth body qp l]
    loop_rejected_last[OF assms, of attempt maxRetries p c endpoint meth body qp l]
  by simp

theorem network_failure_retried_until_exhausted_witness:
  "net (example_env []) (nfetch (example_env [])) = (0, Rejected ''fetch failed'')
   \<and> (\<exists>e. retry_loop example_platform example_client (example_env []) ''/employees/7'' DELETE
            None None 0 0 \<lparr>lastError = None, retryDelay = 1000\<rparr> =
          (Inl e, example_client,
           fetched (example_env [])
             (build_request example_platform example_client ''/employees/7'' DELETE None None)))"
proof -
  have h: "net (example_env []) (nfetch (example_env [])) = (0, Rejected ''fetch failed'')"
    by simp
  show ?thesis
    using h network_failure_retried_until_exhausted[OF h, where attempt = 0 and maxRetries = 0
        and p = example_platform and c = example_client and endpoint = "''/employees/7''"
        and meth = DELETE and body = None and qp = None
        and l = "\<lparr>lastError = None, retryDelay = 1000\<rparr>"]
    by simp
qed

text \<open>
  Claim C5 as stated fails: with the default budget of 3 retries, a first attempt that
  ends in a network failure, with no rate-limit response before it, is not surfaced; the
  request is sent again and the call returns the second attempt's data.
\<close>

theorem first_network_failure_is_retried:
  "fst (makeRequest example_platform example_client
          (example_env [(10, Rejected ''fetch failed''),
                        (20, Responded (response 200 [(''content-type'', ''application/json'')]
                                          (Inr (JObj [(''id'', JStr ''7'')])) []))])
          ''/employees/7'' POST None None 3) = Inr (JObj [(''id'', JStr ''7'')])
   \<and> trace (snd (snd (makeRequest example_platform example_client
          (example_env [(10, Rejected ''fetch failed''),
                        (20, Responded (response 200 [(''content-type'', ''application/json'')]
                                          (Inr (JObj [(''id'', JStr ''7'')])) []))])
          ''/employees/7'' POST None None 3))) =
       [Fetch (build_request example_platform example_client ''/employees/7'' POST None None),
        Fetch (build_request example_platform example_client ''/employees/7'' POST None None)]"
proof -
  let ?r = "response 200 [(''content-type'', ''application/json'')] (Inr (JObj [(''id'', JStr ''7'')])) []"
  let ?w = "example_env [(10, Rejected ''fetch failed''), (20, Responded ?r)]"
  let ?rq = "build_request example_platform example_client ''/employees/7'' POST None None"
  have 1: "net ?w (nfetch ?w) = (10, Rejected ''fetch failed'')" by simp
  have 2: "net (fetched ?w ?rq) (nfetch (fetched ?w ?rq)) = (20, Responded ?r)" by simp
  have ct: "headers_get ?r ''content-type'' = Some ''application/json''"
    by (simp add: headers_get_def toLowerCase_def lower_char_def)
  have "makeRequest example_platform example_client ?w ''/employees/7'' POST None None 3 =
      (Inr (JObj [(''id'', JStr ''7'')]), example_client, fetched (fetched ?w ?rq) ?rq)"
    by (simp add: makeRequest_not_GET loop_rejected_retry[OF 1]
          loop_ok_json[OF 2 _ _ ct] ok_def)
  then show ?thesis by simp
qed

lemma fixed_messages_distinct:
  "distinct [max_retries_message, unauthorized_message, forbidden_message, not_found_message]"
  by (simp add: max_retries_message_def unauthorized_message_def forbidden_message_def
        not_found_message_def)

text \<open>
  Claim C6, as amended. Every response that is not \<open>ok\<close> and that \<open>makeRequest\<close> throws to
  its caller (any status but 429 and 503 at any attempt, 429 and 503 at the last attempt)
  is an error record whose kind field \<open>error\<close> is the one string \<open>API_ERROR\<close>, whatever
  the status. The failure class is carried by the \<open>status\<close> field, which is the HTTP
  status, and by the \<open>message\<close>: four fixed, pairwise different texts for exhausted
  429/503, for 401, for 403 and for 404, and for any other status the vendor's error
  header or \<open>HTTP <status>: <statusText>\<close>.
\<close>

theorem http_failure_error_record:
  assumes "net w (nfetch w) = (lat, Responded r)" and "\<not> ok r" and "attempt \<le> maxRetries"
    and "resp_status r = 429 \<or> resp_status r = 503 \<longrightarrow> attempt = maxRetries"
  shows "\<exists>e. retry_loop p c w endpoint meth body qp maxRetries attempt l =
            (Inl (Record e), c, fetched w (build_request p c endpoint meth body qp))
       \<and> error e = ''API_ERROR''
       \<and> status e = Some (resp_status r)
       \<and> message e =
           (if resp_status r = 429 \<or> resp_status r = 503 then max_retries_message
            else if resp_status r = 401 then unauthorized_message
            else if resp_status r = 403 then forbidden_message
            else if resp_status r = 404 then not_found_message
            else or_else (headers_get r ''X-BambooHR-Error-Message'')
                   (''HTTP '' @ show_nat (resp_status r) @ '': '' @ resp_statusText r))
       \<and> distinct [max_retries_message, unauthorized_message, forbidden_message,
             not_found_message]"
proof -
  have "retry_loop p c w endpoint meth body qp maxRetries attempt l =
            (Inl (Record (terminal_error r)), c, fetched w (build_request p c endpoint meth body qp))"
  proof (cases "resp_status r = 429 \<or> resp_status r = 503")
    case True
    then show ?thesis using loop_rate_limited_last[OF assms(1) True] assms(4) by simp
  next
    case False
    then show ?thesis using loop_http_error[OF assms(1,2) _ _ assms(3)] by simp
  qed
  then show ?thesis
    using fixed_messages_distinct
    by (simp add: terminal_error_def terminal_message_def error_message_def)
qed

theorem http_failure_error_record_witness:
  "\<not> ok (response 403 [(''x-bamboohr-error-message'', ''No access'')] no_json [])
   \<and> (\<exists>e. retry_loop example_platform example_client
            (example_env [(9, Responded (response 403 [(''x-bamboohr-error-message'', ''No access'')]
                                           no_json []))])
            ''/employees/7'' PUT None None 3 0 \<lparr>lastError = None, retryDelay = 1000\<rparr> =
          (Inl (Record e), example_client,
           fetched (example_env [(9, Responded (response 403
                      [(''x-bamboohr-error-message'', ''No access'')] no_json []))])
             (build_request example_platform example_client ''/employees/7'' PUT None None))
        \<and> error e = ''API_ERROR'' \<and> status e = Some 403 \<and> message e = forbidden_message)"
proof -
  let ?r = "response 403 [(''x-bamboohr-error-message'', ''No access'')] no_json []"
  let ?w = "example_env [(9, Responded ?r)]"
  have h: "net ?w (nfetch ?w) = (9, Responded ?r)" "\<not> ok ?r" "(0::int) \<le> 3"
    "resp_status ?r = 429 \<or> resp_status ?r = 503 \<longrightarrow> (0::int) = 3"
    by (simp_all add: ok_def)
  show ?thesis
    using h(2) http_failure_error_record[OF h, of example_platform example_client
        "''/employees/7''" PUT None None "\<lparr>lastError = None, retryDelay = 1000\<rparr>"]
    by auto
qed

text \<open>
  Claim C6 as stated fails: the error record of a 404 has the same kind, \<open>API_ERROR\<close>, as
  the record of a generic failure such as a 500; only the message and the status differ.
\<close>

theorem not_found_has_generic_kind:
  "fst (makeRequest example_platform example_client
          (example_env [(9, Responded (response 404 [] no_json []))])
          ''/employees/7'' DELETE None None 3) =
     Inl (Record \<lparr>error = ''API_ERROR'', message = not_found_message, status = Some 404\<rparr>)
   \<and> fst (makeRequest example_platform example_client
          (example_env [(9, Responded (response 500 [] no_json []))])
          ''/employees/7'' DELETE None None 3) =
     Inl (Record \<lparr>error = ''API_ERROR'', message = ''HTTP 500: status text'',
                   status = Some 500\<rparr>)"
proof -
  let ?a = "response 404 [] no_json []"
  let ?b = "response 500 [] no_json []"
  have a: "net (example_env [(9, Responded ?a)]) (nfetch (example_env [(9, Responded ?a)])) =
      (9, Responded ?a)" by simp
  have b: "net (example_env [(9, Responded ?b)]) (nfetch (example_env [(9, Responded ?b)])) =
      (9, Responded ?b)" by simp
  show ?thesis
    by (simp add: makeRequest_not_GET loop_http_error[OF a] loop_http_error[OF b] ok_def
        terminal_error_def terminal_message_def error_message_def headers_get_def or_else_def
        digit_char_def)
qed

section \<open>Claims about the cache\<close>

lemma retry_loop_cache_indep:
  "meth \<noteq> GET \<Longrightarrow>
   retry_loop p c w endpoint meth body qp maxRetries attempt l = (res, c', w') \<Longrightarrow>
   retry_loop p (c\<lparr>cache := m\<rparr>) w endpoint meth body qp maxRetries attempt l =
     (res, c\<lparr>cache := m\<rparr>, w')"
proof (induction p c w endpoint meth body qp maxRetries attempt l rule: retry_loop.induct)
  case (1 p c w endpoint meth body qp maxRetries attempt l)
  note u = retry_loop.simps[of p c w endpoint meth body qp maxRetries attempt l]
  note v = retry_loop.simps[of p "c\<lparr>cache := m\<rparr>" w endpoint meth body qp maxRetries attempt l]
  show ?case
  proof (cases "attempt \<le> maxRetries")
    case False
    then show ?thesis using "1.prems"(2) u v by simp
  next
    case True
    obtain k l1 c1 w1 where tb:
      "try_block p c w endpoint meth body qp maxRetries attempt l = (k, l1, c1, w1)"
      by (cases "try_block p c w endpoint meth body qp maxRetries attempt l") auto
    have c1: "c1 = c" using try_block_client[OF "1.prems"(1) tb] .
    have tb': "try_block p (c\<lparr>cache := m\<rparr>) w endpoint meth body qp maxRetries attempt l =
        (k, l1, c\<lparr>cache := m\<rparr>, w1)"
      using try_block_cache_indep[OF "1.prems"(1) tb] .
    show ?thesis
    proof (cases k)
      case (Returned d)
      then show ?thesis using True tb tb' c1 "1.prems"(2) u v by simp
    next
      case Continue
      have "retry_loop p c1 w1 endpoint meth body qp maxRetries (attempt + 1) l1 = (res, c', w')"
        using True tb Continue "1.prems"(2) u by simp
      from "1.IH"(2)[OF True tb[symmetric] Continue refl refl "1.prems"(1) this]
      show ?thesis using True tb' Continue c1 v by simp
    next
      case (Thrown e)
      show ?thesis
      proof (cases "catch_block e maxRetries attempt l1")
        case (Inl e1)
        then show ?thesis using True tb tb' c1 Thrown "1.prems"(2) u v by simp
      next
        case (Inr l2)
        have "retry_loop p c1 w1 endpoint meth body qp maxRetries (attempt + 1) l2 = (res, c', w')"
          using True tb Thrown Inr "1.prems"(2) u by simp
        from "1.IH"(1)[OF True tb[symmetric] Thrown refl refl Inr "1.prems"(1) this]
        show ?thesis using True tb' Thrown Inr c1 v by simp
      qed
    qed
  qed
qed

lemma try_block_GET_cache:
  "try_block p c w endpoint GET body qp maxRetries attempt l = (k, l1, c1, w1) \<Longrightarrow>
   c1 = c \<or> (\<exists>d. k = Returned d \<and> c1 = setCache c w1 (getCacheKey p endpoint qp) d)"
  by (auto simp: try_block_def on_ok_response_def
        split: prod.splits fetch_outcome.splits if_splits option.splits sum.splits)

lemma retry_loop_GET_cache:
  "retry_loop p c w endpoint meth body qp maxRetries attempt l = (res, c', w') \<Longrightarrow> meth = GET \<Longrightarrow>
   c' = c \<or> (\<exists>d. res = Inr d \<and> c' = setCache c w' (getCacheKey p endpoint qp) d)"
proof (induction p c w endpoint meth body qp maxRetries attempt l rule: retry_loop.induct)
  case (1 p c w endpoint meth body qp maxRetries attempt l)
  note u = retry_loop.simps[of p c w endpoint meth body qp maxRetries attempt l]
  show ?case
  proof (cases "attempt \<le> maxRetries")
    case False
    then show ?thesis using "1.prems"(1) u by simp
  next
    case True
    obtain k l1 c1 w1 where tb:
      "try_block p c w endpoint meth body qp maxRetries attempt l = (k, l1, c1, w1)"
      by (cases "try_block p c w endpoint meth body qp maxRetries attempt l") auto
    have c1: "c1 = c \<or> (\<exists>d. k = Returned d \<and> c1 = setCache c w1 (getCacheKey p endpoint qp) d)"
      using try_block_GET_cache tb "1.prems"(2) by blast
    show ?thesis
    proof (cases k)
      case (Returned d)
      then show ?thesis using True tb c1 "1.prems"(1) u by auto
    next
      case Continue
      have "retry_loop p c1 w1 endpoint meth body qp maxRetries (attempt + 1) l1 = (res, c', w')"
        using True tb Continue "1.prems"(1) u by simp
      from "1.IH"(2)[OF True tb[symmetric] Continue refl refl this "1.prems"(2)]
      show ?thesis using Continue c1 by simp
    next
      case (Thrown e)
      show ?thesis
      proof (cases "catch_block e maxRetries attempt l1")
        case (Inl e1)
        then show ?thesis using True tb c1 Thrown "1.prems"(1) u by auto
      next
        case (Inr l2)
        have "retry_loop p c1 w1 endpoint meth body qp maxRetries (attempt + 1) l2 = (res, c', w')"
          using True tb Thrown Inr "1.prems"(1) u by simp
        from "1.IH"(1)[OF True tb[symmetric] Thrown refl refl Inr this "1.prems"(2)]
        show ?thesis using Thrown c1 by simp
      qed
    qed
  qed
qed

lemma getFromCache_sub:
  "getFromCache c w key = (v, c1) \<Longrightarrow> cache c1 k = Some e \<Longrightarrow> cache c k = Some e"
  by (auto simp: getFromCache_def split: option.splits if_splits)

lemma getFromCache_request:
  "getFromCache c w key = (v, c1) \<Longrightarrow>
   build_request p c1 endpoint meth body qp = build_request p c endpoint meth body qp"
  by (auto simp: getFromCache_def split: option.splits if_splits)

lemma getCacheKey_example [simp]: "getCacheKey example_platform endpoint None = endpoint"
  by (simp add: getCacheKey_def)

text \<open>
  Claim C3. A POST, PUT or DELETE through \<open>makeRequest\<close> never writes the cache: whatever
  the outcome, the client comes back as it was, so every cached GET entry is unchanged
  (also the one whose key is this request's path and query). It never reads the cache
  either: with any other cache contents the result and all effects are the same. And an
  entry that is in the cache after a call and was not there before (or held something
  else) was made by a GET that succeeded: it sits under that call's key and holds the
  data the call returned and the time of the store.
\<close>

theorem mutations_bypass_cache:
  "(meth \<noteq> GET \<longrightarrow>
      fst (snd (makeRequest p c w endpoint meth body qp maxRetries)) = c
    \<and> makeRequest p (c\<lparr>cache := m\<rparr>) w endpoint meth body qp maxRetries =
        (fst (makeRequest p c w endpoint meth body qp maxRetries), c\<lparr>cache := m\<rparr>,
         snd (snd (makeRequest p c w endpoint meth body qp maxRetries))))
   \<and> (makeRequest p c w endpoint meth body qp maxRetries = (res, c', w') \<and>
        cache c' k = Some e \<and> cache c k \<noteq> Some e \<longrightarrow>
        meth = GET \<and> k = getCacheKey p endpoint qp \<and> res = Inr (data e) \<and> timestamp e = now w')"
proof -
  let ?start = "\<lparr>lastError = None, retryDelay = 1000\<rparr>"
  have frame: "fst (snd (makeRequest p c w endpoint meth body qp maxRetries)) = c"
    if "meth \<noteq> GET"
    using that by (simp add: makeRequest_not_GET retry_loop_client)
  have indep: "makeRequest p (c\<lparr>cache := m\<rparr>) w endpoint meth body qp maxRetries =
        (fst (makeRequest p c w endpoint meth body qp maxRetries), c\<lparr>cache := m\<rparr>,
         snd (snd (makeRequest p c w endpoint meth body qp maxRetries)))"
    if ng: "meth \<noteq> GET"
  proof -
    obtain res1 c1 w1 where r:
      "retry_loop p c w endpoint meth body qp maxRetries 0 ?start = (res1, c1, w1)"
      by (cases "retry_loop p c w endpoint meth body qp maxRetries 0 ?start") auto
    show ?thesis using retry_loop_cache_indep[OF ng r, of m] r ng
      by (simp add: makeRequest_not_GET)
  qed
  have created: "meth = GET \<and> k = getCacheKey p endpoint qp \<and> res = Inr (data e) \<and>
        timestamp e = now w'"
    if mk: "makeRequest p c w endpoint meth body qp maxRetries = (res, c', w')"
      and new: "cache c' k = Some e" "cache c k \<noteq> Some e"
  proof (cases "meth = GET")
    case False
    then have "c' = c" using frame mk by simp
    then show ?thesis using new by simp
  next
    case True
    obtain v c1 where g: "getFromCache c w (getCacheKey p endpoint qp) = (v, c1)"
      by (cases "getFromCache c w (getCacheKey p endpoint qp)") auto
    have old: "cache c1 k \<noteq> Some e" using getFromCache_sub[OF g] new(2) by blast
    show ?thesis
    proof (cases "v \<noteq> JNull")
      case True
      then have "c' = c1" using mk g \<open>meth = GET\<close> by (simp add: makeRequest_def)
      then show ?thesis using new(1) old by simp
    next
      case False
      then have "retry_loop p c1 w endpoint meth body qp maxRetries 0 ?start = (res, c', w')"
        using mk g \<open>meth = GET\<close> by (simp add: makeRequest_def)
      from retry_loop_GET_cache[OF this \<open>meth = GET\<close>]
      consider "c' = c1"
        | d where "res = Inr d" "c' = setCache c1 w' (getCacheKey p endpoint qp) d"
        by blast
      then show ?thesis
      proof cases
        case 1
        then show ?thesis using new(1) old by simp
      next
        case 2
        then show ?thesis
          using new(1) old \<open>meth = GET\<close>
          by (cases "k = getCacheKey p endpoint qp") (auto simp: setCache_def)
      qed
    qed
  qed
  show ?thesis using frame indep created by blast
qed

theorem mutations_bypass_cache_witness:
  "POST \<noteq> GET
   \<and> makeRequest example_platform (example_cached_client (JStr ''old'') 999000)
        (example_env [(15, Responded (response 200 [(''content-type'', ''application/json'')]
                                        (Inr (JStr ''new'')) []))])
        ''/employees/7'' POST (Some (JStr ''x'')) None 3 =
      (Inr (JStr ''new''), example_cached_client (JStr ''old'') 999000,
       fetched (example_env [(15, Responded (response 200 [(''content-type'', ''application/json'')]
                                        (Inr (JStr ''new'')) []))])
         (build_request example_platform example_client ''/employees/7'' POST (Some (JStr ''x'')) None))
   \<and> fst (snd (makeRequest example_platform example_client
        (example_env [(15, Responded (response 200 [(''content-type'', ''application/json'')]
                                        (Inr (JStr ''new'')) []))])
        ''/employees/7'' POST (Some (JStr ''x'')) None 3)) = example_client
   \<and> makeRequest example_platform example_client
        (example_env [(15, Responded (response 200 [(''content-type'', ''application/json'')]
                                        (Inr (JStr ''new'')) []))])
        ''/employees/7'' GET None None 3 =
      (Inr (JStr ''new''), example_cached_client (JStr ''new'') 1000015,
       fetched (example_env [(15, Responded (response 200 [(''content-type'', ''application/json'')]
                                        (Inr (JStr ''new'')) []))])
         (build_request example_platform example_client ''/employees/7'' GET None None))
   \<and> cache (example_cached_client (JStr ''new'') 1000015) ''/employees/7'' =
       Some \<lparr>data = JStr ''new'', timestamp = 1000015\<rparr>
   \<and> cache example_client ''/employees/7'' \<noteq> Some \<lparr>data = JStr ''new'', timestamp = 1000015\<rparr>
   \<and> timestamp \<lparr>data = JStr ''new'', timestamp = 1000015\<rparr> =
       now (fetched (example_env [(15, Responded (response 200
              [(''content-type'', ''application/json'')] (Inr (JStr ''new'')) []))])
         (build_request example_platform example_client ''/employees/7'' GET None None))"
proof -
  let ?r = "response 200 [(''content-type'', ''application/json'')] (Inr (JStr ''new'')) []"
  let ?w = "example_env [(15, Responded ?r)]"
  let ?rq = "build_request example_platform example_client ''/employees/7'' POST (Some (JStr ''x'')) None"
  have n: "net ?w (nfetch ?w) = (15, Responded ?r)" by simp
  have ct: "headers_get ?r ''content-type'' = Some ''application/json''"
    by (simp add: headers_get_def toLowerCase_def lower_char_def)
  have plain: "makeRequest example_platform example_client ?w ''/employees/7'' POST
      (Some (JStr ''x'')) None 3 = (Inr (JStr ''new''), example_client, fetched ?w ?rq)"
    by (simp add: makeRequest_not_GET loop_ok_json[OF n _ _ ct] ok_def)
  let ?rqg = "build_request example_platform example_client ''/employees/7'' GET None None"
  let ?e = "\<lparr>data = JStr ''new'', timestamp = 1000015\<rparr>"
  have get: "makeRequest example_platform example_client ?w ''/employees/7'' GET None None 3 =
      (Inr (JStr ''new''), example_cached_client (JStr ''new'') 1000015, fetched ?w ?rqg)"
    by (simp add: makeRequest_def getFromCache_def loop_ok_json[OF n _ _ ct] ok_def setCache_def
          example_cached_client_def example_client_def new_client_def)
  have hyp: "cache (example_cached_client (JStr ''new'') 1000015) ''/employees/7'' = Some ?e"
      "cache example_client ''/employees/7'' \<noteq> Some ?e"
    by (simp_all add: example_cached_client_def example_client_def new_client_def)
  have post: "makeRequest example_platform (example_cached_client (JStr ''old'') 999000) ?w
        ''/employees/7'' POST (Some (JStr ''x'')) None 3 =
      (Inr (JStr ''new''), example_cached_client (JStr ''old'') 999000, fetched ?w ?rq)
    \<and> fst (snd (makeRequest example_platform example_client ?w
        ''/employees/7'' POST (Some (JStr ''x'')) None 3)) = example_client"
    using mutations_bypass_cache[where meth = POST and p = example_platform and c = example_client
        and w = ?w and endpoint = "''/employees/7''" and body = "Some (JStr ''x'')" and qp = None
        and maxRetries = 3
        and m = "[''/employees/7'' \<mapsto> \<lparr>data = JStr ''old'', timestamp = 999000\<rparr>]"] plain
    by (simp add: example_cached_client_def)
  have made: "timestamp ?e = now (fetched ?w ?rqg)"
    using mutations_bypass_cache[where meth = GET and p = example_platform and c = example_client
        and w = ?w and endpoint = "''/employees/7''" and body = None and qp = None
        and maxRetries = 3 and res = "Inr (JStr ''new'')"
        and c' = "example_cached_client (JStr ''new'') 1000015" and w' = "fetched ?w ?rqg"
        and k = "''/employees/7''" and e = ?e] get hyp
    by blast
  show ?thesis using post get hyp made by simp
qed

text \<open>
  Claim C1, as amended. For a GET through \<open>makeRequest\<close>, with the key made of endpoint and
  query parameters: an entry that is at most 5 minutes (300000 ms) old and whose data is
  not \<open>null\<close> is returned at once, with no network call and nothing changed; when there is
  no entry or only one older than that, the request goes to the network, and if the first
  response is \<open>ok\<close>, not a 204, with a content-type that contains \<open>application/json\<close> and a
  body that parses, the parsed data is returned and stored under the key with the time
  at that moment (after the \<open>fetch\<close>); the same store happens at whatever attempt such a
  response arrives, while an \<open>ok\<close> response that is empty or not JSON is returned and
  leaves the cache as it is; an entry older than the TTL is treated as absent by the
  lookup and removed from the cache.
\<close>

theorem get_reads_through_cache:
  "(cache c (getCacheKey p endpoint qp) = Some e \<and> now w - timestamp e \<le> cacheTTL \<and>
      data e \<noteq> JNull \<longrightarrow>
      makeRequest p c w endpoint GET body qp maxRetries = (Inr (data e), c, w))
   \<and> ((cache c (getCacheKey p endpoint qp) = None \<or>
        (\<exists>old. cache c (getCacheKey p endpoint qp) = Some old \<and> now w - timestamp old > cacheTTL)) \<and>
       0 \<le> maxRetries \<and> net w (nfetch w) = (lat, Responded r) \<and> ok r \<and> resp_status r \<noteq> 204 \<and>
       headers_get r ''content-type'' = Some ct \<and> ct \<noteq> [] \<and>
       (\<exists>a b. ct = a @ ''application/json'' @ b) \<and> resp_json r = Inr d \<longrightarrow>
       (\<exists>c' w'. makeRequest p c w endpoint GET body qp maxRetries = (Inr d, c', w')
          \<and> trace w' = trace w @ [Fetch (build_request p c endpoint GET body qp)]
          \<and> now w' = now w + int lat
          \<and> cache c' = (cache c)(getCacheKey p endpoint qp \<mapsto> \<lparr>data = d, timestamp = now w'\<rparr>)))
   \<and> (attempt \<le> maxRetries \<and> net w (nfetch w) = (lat, Responded r) \<and> ok r \<and>
       resp_status r \<noteq> 204 \<and> headers_get r ''content-type'' = Some ct \<and> ct \<noteq> [] \<and>
       (\<exists>a b. ct = a @ ''application/json'' @ b) \<and> resp_json r = Inr d \<longrightarrow>
       (\<exists>c' w'. retry_loop p c w endpoint GET body qp maxRetries attempt l = (Inr d, c', w')
          \<and> now w' = now w + int lat
          \<and> cache c' = (cache c)(getCacheKey p endpoint qp \<mapsto> \<lparr>data = d, timestamp = now w'\<rparr>)))
   \<and> (attempt \<le> maxRetries \<and> net w (nfetch w) = (lat, Responded r) \<and> ok r \<and>
       (resp_status r = 204 \<or> \<not> truthy_str (headers_get r ''content-type'') \<or>
        (headers_get r ''content-type'' = Some ct \<and> \<not> (\<exists>a b. ct = a @ ''application/json'' @ b))) \<longrightarrow>
       (\<exists>v w'. retry_loop p c w endpoint GET body qp maxRetries attempt l = (Inr v, c, w')))
   \<and> (cache c key = Some e \<and> now w - timestamp e > cacheTTL \<longrightarrow>
        getFromCache c w key = (JNull, c\<lparr>cache := (cache c)(key := None)\<rparr>))
   \<and> cacheTTL = 300000"
proof -
  let ?key = "getCacheKey p endpoint qp"
  let ?start = "\<lparr>lastError = None, retryDelay = 1000\<rparr>"
  let ?rq = "build_request p c endpoint GET body qp"
  have hit: "makeRequest p c w endpoint GET body qp maxRetries = (Inr (data e), c, w)"
    if "cache c ?key = Some e" "now w - timestamp e \<le> cacheTTL" "data e \<noteq> JNull"
    using that by (simp add: makeRequest_def getFromCache_hit)
  have miss: "\<exists>c' w'. makeRequest p c w endpoint GET body qp maxRetries = (Inr d, c', w')
          \<and> trace w' = trace w @ [Fetch ?rq]
          \<and> now w' = now w + int lat
          \<and> cache c' = (cache c)(?key \<mapsto> \<lparr>data = d, timestamp = now w'\<rparr>)"
    if absent: "cache c ?key = None \<or>
        (\<exists>old. cache c ?key = Some old \<and> now w - timestamp old > cacheTTL)"
      and mr: "0 \<le> maxRetries" and n: "net w (nfetch w) = (lat, Responded r)" and okr: "ok r"
      and st: "resp_status r \<noteq> 204" and ct: "headers_get r ''content-type'' = Some ct" "ct \<noteq> []"
      and inc: "\<exists>a b. ct = a @ ''application/json'' @ b" and js: "resp_json r = Inr d"
  proof -
    obtain c1 where g: "getFromCache c w ?key = (JNull, c1)"
      and c1: "cache c1 = cache c \<or> cache c1 = (cache c)(?key := None)"
      using absent getFromCache_absent[of c ?key w] getFromCache_stale[of c ?key _ w] by auto
    have rq: "build_request p c1 endpoint GET body qp = ?rq"
      using getFromCache_request[OF g] .
    have inc': "str_includes ct ''application/json''" using inc by (simp add: str_includes_iff)
    have loop: "retry_loop p c1 w endpoint GET body qp maxRetries 0 ?start =
        (Inr d, setCache c1 (fetched w ?rq) ?key d, fetched w ?rq)"
      using loop_ok_json[OF n okr mr ct st inc' js, of p c1 endpoint GET body qp ?start] rq
      by simp
    have mk: "makeRequest p c w endpoint GET body qp maxRetries =
        (Inr d, setCache c1 (fetched w ?rq) ?key d, fetched w ?rq)"
      using g loop by (simp add: makeRequest_def)
    have "cache (setCache c1 (fetched w ?rq) ?key d) =
        (cache c)(?key \<mapsto> \<lparr>data = d, timestamp = now (fetched w ?rq)\<rparr>)"
      using c1 by (auto simp: setCache_def)
    moreover have "now (fetched w ?rq) = now w + int lat" using n by simp
    ultimately show ?thesis using mk by simp
  qed
  have stale: "getFromCache c w key = (JNull, c\<lparr>cache := (cache c)(key := None)\<rparr>)"
    if "cache c key = Some e" "now w - timestamp e > cacheTTL"
    using that by (rule getFromCache_stale)
  have ttl: "cacheTTL = 300000" by (simp add: cacheTTL_def)
  have store: "\<exists>c' w'. retry_loop p c w endpoint GET body qp maxRetries attempt l = (Inr d, c', w')
          \<and> now w' = now w + int lat
          \<and> cache c' = (cache c)(?key \<mapsto> \<lparr>data = d, timestamp = now w'\<rparr>)"
    if le: "attempt \<le> maxRetries" and n: "net w (nfetch w) = (lat, Responded r)" and okr: "ok r"
      and st: "resp_status r \<noteq> 204" and ct: "headers_get r ''content-type'' = Some ct" "ct \<noteq> []"
      and inc: "\<exists>a b. ct = a @ ''application/json'' @ b" and js: "resp_json r = Inr d"
  proof -
    have inc': "str_includes ct ''application/json''" using inc by (simp add: str_includes_iff)
    have "retry_loop p c w endpoint GET body qp maxRetries attempt l =
        (Inr d, setCache c (fetched w ?rq) ?key d, fetched w ?rq)"
      using loop_ok_json[OF n okr le ct st inc' js, of p c endpoint GET body qp l] by simp
    moreover have "now (fetched w ?rq) = now w + int lat" using n by simp
    ultimately show ?thesis by (simp add: setCache_def)
  qed
  have skip: "\<exists>v w'. retry_loop p c w endpoint GET body qp maxRetries attempt l = (Inr v, c, w')"
    if le: "attempt \<le> maxRetries" and n: "net w (nfetch w) = (lat, Responded r)" and okr: "ok r"
      and other: "resp_status r = 204 \<or> \<not> truthy_str (headers_get r ''content-type'') \<or>
        (headers_get r ''content-type'' = Some ct \<and> \<not> (\<exists>a b. ct = a @ ''application/json'' @ b))"
  proof (cases "resp_status r = 204 \<or> \<not> truthy_str (headers_get r ''content-type'')")
    case True
    then show ?thesis
      using loop_ok_empty[OF n okr le, of p c endpoint GET body qp l] by auto
  next
    case False
    then have ct: "headers_get r ''content-type'' = Some ct" "ct \<noteq> []" "resp_status r \<noteq> 204"
      and ninc: "\<not> str_includes ct ''application/json''"
      using other by (auto simp: str_includes_iff)
    show ?thesis
      using loop_ok_text[OF n okr le ct ninc, of p c endpoint GET body qp l] by simp
  qed
  show ?thesis using hit miss store skip stale ttl by blast
qed

theorem get_reads_through_cache_witness:
  "makeRequest example_platform (example_cached_client (JStr ''old'') 999000) (example_env [])
     ''/employees/7'' GET None None 3 =
     (Inr (JStr ''old''), example_cached_client (JStr ''old'') 999000, example_env [])
   \<and> (\<exists>c' w'. makeRequest example_platform (example_cached_client (JStr ''old'') 600000)
          (example_env [(15, Responded (response 200 [(''content-type'', ''application/json'')]
                                          (Inr (JStr ''new'')) []))])
          ''/employees/7'' GET None None 3 = (Inr (JStr ''new''), c', w')
        \<and> now w' = 1000015
        \<and> cache c' ''/employees/7'' = Some \<lparr>data = JStr ''new'', timestamp = 1000015\<rparr>)
   \<and> getFromCache (example_cached_client (JStr ''old'') 600000) (example_env []) ''/employees/7'' =
       (JNull, (example_cached_client (JStr ''old'') 600000)\<lparr>cache := Map.empty\<rparr>)"
proof -
  let ?r = "response 200 [(''content-type'', ''application/json'')] (Inr (JStr ''new'')) []"
  let ?w = "example_env [(15, Responded ?r)]"
  have ct: "headers_get ?r ''content-type'' = Some ''application/json''"
    by (simp add: headers_get_def toLowerCase_def lower_char_def)
  have inc: "\<exists>a b. ''application/json'' = a @ ''application/json'' @ b"
    by (rule exI[of _ "[]"], rule exI[of _ "[]"]) simp
  have fresh: "cache (example_cached_client (JStr ''old'') 999000)
        (getCacheKey example_platform ''/employees/7'' None) =
          Some \<lparr>data = JStr ''old'', timestamp = 999000\<rparr>
      \<and> now (example_env []) - timestamp \<lparr>data = JStr ''old'', timestamp = 999000\<rparr> \<le> cacheTTL
      \<and> data \<lparr>data = JStr ''old'', timestamp = 999000\<rparr> \<noteq> JNull"
    by (simp add: example_cached_client_def cacheTTL_def)
  have old: "cache (example_cached_client (JStr ''old'') 600000)
        (getCacheKey example_platform ''/employees/7'' None) =
          Some \<lparr>data = JStr ''old'', timestamp = 600000\<rparr>"
      "now ?w - timestamp \<lparr>data = JStr ''old'', timestamp = 600000\<rparr> > cacheTTL"
      "now (example_env []) - timestamp \<lparr>data = JStr ''old'', timestamp = 600000\<rparr> > cacheTTL"
    by (simp_all add: example_cached_client_def cacheTTL_def)
  have a: "makeRequest example_platform (example_cached_client (JStr ''old'') 999000)
      (example_env []) ''/employees/7'' GET None None 3 =
     (Inr (JStr ''old''), example_cached_client (JStr ''old'') 999000, example_env [])"
    using get_reads_through_cache[where c = "example_cached_client (JStr ''old'') 999000"
        and p = example_platform and endpoint = "''/employees/7''" and qp = None
        and w = "example_env []" and e = "\<lparr>data = JStr ''old'', timestamp = 999000\<rparr>"
        and body = None and maxRetries = 3] fresh
    by simp
  have b: "\<exists>c' w'. makeRequest example_platform (example_cached_client (JStr ''old'') 600000) ?w
          ''/employees/7'' GET None None 3 = (Inr (JStr ''new''), c', w')
        \<and> now w' = 1000015
        \<and> cache c' ''/employees/7'' = Some \<lparr>data = JStr ''new'', timestamp = 1000015\<rparr>"
  proof -
    have h: "(cache (example_cached_client (JStr ''old'') 600000)
          (getCacheKey example_platform ''/employees/7'' None) = None \<or>
        (\<exists>old. cache (example_cached_client (JStr ''old'') 600000)
            (getCacheKey example_platform ''/employees/7'' None) = Some old \<and>
            now ?w - timestamp old > cacheTTL)) \<and>
       (0::int) \<le> 3 \<and> net ?w (nfetch ?w) = (15, Responded ?r) \<and> ok ?r \<and> resp_status ?r \<noteq> 204 \<and>
       headers_get ?r ''content-type'' = Some ''application/json'' \<and> ''application/json'' \<noteq> [] \<and>
       (\<exists>a b. ''application/json'' = a @ ''application/json'' @ b) \<and> resp_json ?r = Inr (JStr ''new'')"
      using old(1,2) ct inc by (simp add: ok_def)
    from get_reads_through_cache[where c = "example_cached_client (JStr ''old'') 600000"
        and p = example_platform and endpoint = "''/employees/7''" and qp = None
        and w = ?w and body = None and maxRetries = 3 and lat = 15 and r = ?r
        and ct = "''application/json''" and d = "JStr ''new''"] h
    obtain c' w' where x:
      "makeRequest example_platform (example_cached_client (JStr ''old'') 600000) ?w
          ''/employees/7'' GET None None 3 = (Inr (JStr ''new''), c', w')"
      "now w' = now ?w + int 15"
      "cache c' = (cache (example_cached_client (JStr ''old'') 600000))
          (getCacheKey example_platform ''/employees/7'' None \<mapsto>
             \<lparr>data = JStr ''new'', timestamp = now w'\<rparr>)"
      by blast
    show ?thesis using x by simp
  qed
  have c: "getFromCache (example_cached_client (JStr ''old'') 600000) (example_env []) ''/employees/7'' =
       (JNull, (example_cached_client (JStr ''old'') 600000)\<lparr>cache := Map.empty\<rparr>)"
    using get_reads_through_cache[where c = "example_cached_client (JStr ''old'') 600000"
        and key = "''/employees/7''" and w = "example_env []"
        and e = "\<lparr>data = JStr ''old'', timestamp = 600000\<rparr>"] old(1,3)
    by (simp add: example_cached_client_def)
  show ?thesis using a b c by blast
qed

text \<open>
  Claim C1 as stated fails: a GET that misses the cache and succeeds with a response that
  is not JSON (here \<open>text/plain\<close>) returns the text and stores nothing under the key.
\<close>

theorem text_response_is_not_cached:
  "fst (makeRequest example_platform example_client
          (example_env [(12, Responded (response 200 [(''content-type'', ''text/plain'')] no_json ''hello''))])
          ''/meta/fields'' GET None None 3) = Inr (JStr ''hello'')
   \<and> cache (fst (snd (makeRequest example_platform example_client
          (example_env [(12, Responded (response 200 [(''content-type'', ''text/plain'')] no_json ''hello''))])
          ''/meta/fields'' GET None None 3)))
        (getCacheKey example_platform ''/meta/fields'' None) = None"
proof -
  let ?r = "response 200 [(''content-type'', ''text/plain'')] no_json ''hello''"
  let ?w = "example_env [(12, Responded ?r)]"
  have n: "net ?w (nfetch ?w) = (12, Responded ?r)" by simp
  have ct: "headers_get ?r ''content-type'' = Some ''text/plain''"
    by (simp add: headers_get_def toLowerCase_def lower_char_def)
  show ?thesis
    by (simp add: makeRequest_def getFromCache_def loop_ok_text[OF n _ _ ct] ok_def
          example_client_def new_client_def)
qed

text \<open>
  A fresh entry whose data is the JSON value \<open>null\<close>: \<open>getFromCache\<close> returns \<open>null\<close> for
  a miss as well, so \<open>makeRequest\<close> takes the entry for a miss and the request goes to the
  network again.
\<close>

lemma cached_null_is_fetched_again:
  "makeRequest example_platform (example_cached_client JNull 999000)
     (example_env [(12, Responded (response 200 [(''content-type'', ''text/plain'')] no_json ''hello''))])
     ''/employees/7'' GET None None 3 =
   (Inr (JStr ''hello''), example_cached_client JNull 999000,
    fetched (example_env [(12, Responded (response 200 [(''content-type'', ''text/plain'')] no_json ''hello''))])
      (build_request example_platform example_client ''/employees/7'' GET None None))"
proof -
  let ?r = "response 200 [(''content-type'', ''text/plain'')] no_json ''hello''"
  let ?w = "example_env [(12, Responded ?r)]"
  have n: "net ?w (nfetch ?w) = (12, Responded ?r)" by simp
  have ct: "headers_get ?r ''content-type'' = Some ''text/plain''"
    by (simp add: headers_get_def toLowerCase_def lower_char_def)
  show ?thesis
    by (simp add: makeRequest_def getFromCache_def loop_ok_text[OF n _ _ ct] ok_def
          example_cached_client_def cacheTTL_def)
qed

section \<open>Claims about the multipart body\<close>

lemma lower_char_not_upper:
  "lower_char x \<notin> set ''ABCDEFGHIJKLMNOPQRSTUVWXYZ''"
proof (cases "map_of (zip ''ABCDEFGHIJKLMNOPQRSTUVWXYZ'' ''abcdefghijklmnopqrstuvwxyz'') x")
  case None
  have "map fst (zip ''ABCDEFGHIJKLMNOPQRSTUVWXYZ'' ''abcdefghijklmnopqrstuvwxyz'') =
      ''ABCDEFGHIJKLMNOPQRSTUVWXYZ''" by simp
  then have "fst ` set (zip ''ABCDEFGHIJKLMNOPQRSTUVWXYZ'' ''abcdefghijklmnopqrstuvwxyz'') =
      set ''ABCDEFGHIJKLMNOPQRSTUVWXYZ''" by (metis set_map)
  then have "x \<notin> set ''ABCDEFGHIJKLMNOPQRSTUVWXYZ''"
    using None map_of_eq_None_iff[of "zip ''ABCDEFGHIJKLMNOPQRSTUVWXYZ'' ''abcdefghijklmnopqrstuvwxyz''" x]
    by blast
  then show ?thesis using None by (simp add: lower_char_def)
next
  case (Some l)
  then have "l \<in> set ''abcdefghijklmnopqrstuvwxyz''"
    by (meson map_of_SomeD set_zip_rightD)
  then have "l \<notin> set ''ABCDEFGHIJKLMNOPQRSTUVWXYZ''" by auto
  then show ?thesis using Some by (simp add: lower_char_def)
qed

lemma toLowerCase_no_upper:
  "c \<in> set ''ABCDEFGHIJKLMNOPQRSTUVWXYZ'' \<Longrightarrow> c \<notin> set (toLowerCase s)"
  using lower_char_not_upper by (auto simp: toLowerCase_def)

lemma extension_no_upper:
  "c \<in> set ''ABCDEFGHIJKLMNOPQRSTUVWXYZ'' \<Longrightarrow> c \<notin> set (extension fileName)"
  using toLowerCase_no_upper[of c]
  by (auto simp: extension_def or_else_def split: option.splits)

text \<open>
  The content type in the other cases: an extension that is not a key of the table and is
  neither \<open>constructor\<close> nor \<open>__proto__\<close> gets \<open>application/octet-stream\<close> (the extension is in
  lower case, so no other inherited property name can match); \<open>report.pdf\<close> gets
  \<open>application/pdf\<close>; and with category \<open>42\<close> the body is the file part, the category
  part and the closing boundary, in this order.
\<close>

lemma unknown_extension_content_type:
  assumes "map_of contentTypeMap (extension fileName) = None"
    and "extension fileName \<noteq> ''constructor''" and "extension fileName \<noteq> ''__proto__''"
  shows "fileContentType fileName = ''application/octet-stream''"
proof -
  have "map_of object_prototype (extension fileName) = None"
    using assms(2,3) extension_no_upper[of "CHR ''G''" fileName]
      extension_no_upper[of "CHR ''S''" fileName] extension_no_upper[of "CHR ''O''" fileName]
      extension_no_upper[of "CHR ''P''" fileName] extension_no_upper[of "CHR ''I''" fileName]
      extension_no_upper[of "CHR ''L''" fileName]
    by (auto simp: object_prototype_def)
  then show ?thesis using assms(1) by (simp add: fileContentType_def property_get_def or_else_def)
qed

lemma pdf_content_type: "fileContentType ''report.pdf'' = ''application/pdf''"
  by (simp add: fileContentType_def property_get_def extension_def split_def pop_def or_else_def
        toLowerCase_def lower_char_def contentTypeMap_def)

lemma report_pdf_body:
  "fullBody boundary fileBuffer ''report.pdf'' (Some ''42'') =
     (''--'' @ boundary @ CRLF @
      ''Content-Disposition: form-data; name='' @ [CHR 0x22] @ ''file'' @ [CHR 0x22] @
        ''; filename='' @ [CHR 0x22] @ ''report.pdf'' @ [CHR 0x22] @ CRLF @
      ''Content-Type: application/pdf'' @ CRLF @ CRLF @ fileBuffer @ CRLF) @
     (''--'' @ boundary @ CRLF @
      ''Content-Disposition: form-data; name='' @ [CHR 0x22] @ ''category'' @ [CHR 0x22] @ CRLF @
      CRLF @ ''42'' @ CRLF) @
     ''--'' @ boundary @ ''--'' @ CRLF"
  by (simp add: fullBody_def file_part_head_def categoryPart_def pdf_content_type)

text \<open>
  Claim C7 fails on the code for a file name whose extension is the name of a property
  that the table inherits from \<open>Object.prototype\<close>. For \<open>notes.constructor\<close> the extension
  \<open>constructor\<close> is not a key of the table, yet the lookup finds the inherited
  \<open>constructor\<close> function, which is truthy, so the fallback
  \<open>|| 'application/octet-stream'\<close> is not taken and the file part that is sent declares
  \<open>Content-Type: function Object() { [native code] }\<close>.
\<close>

theorem inherited_key_content_type:
  "extension ''notes.constructor'' = ''constructor''
   \<and> map_of contentTypeMap ''constructor'' = None
   \<and> fileContentType ''notes.constructor'' = ''function Object() { [native code] }''
   \<and> map req_body (fetches (trace (snd (snd (uploadFile example_platform example_client
        (example_env []) ''/employees/7/files'' (Buffer ''data'') ''notes.constructor'' None))))) =
       [Some (''------BambooHRFormBoundary1000000'' @ CRLF @
          ''Content-Disposition: form-data; name='' @ [CHR 0x22] @ ''file'' @ [CHR 0x22] @
            ''; filename='' @ [CHR 0x22] @ ''notes.constructor'' @ [CHR 0x22] @ CRLF @
          ''Content-Type: function Object() { [native code] }'' @ CRLF @ CRLF @
          ''data'' @ CRLF @
          ''------BambooHRFormBoundary1000000--'' @ CRLF)]"
proof -
  have e: "extension ''notes.constructor'' = ''constructor''"
    by (simp add: extension_def split_def pop_def or_else_def toLowerCase_def lower_char_def)
  have m: "map_of contentTypeMap ''constructor'' = None"
    by (simp add: contentTypeMap_def)
  have t: "fileContentType ''notes.constructor'' = ''function Object() { [native code] }''"
    by (simp add: fileContentType_def e property_get_def m object_prototype_def or_else_def
          native_function_def)
  have b: "show_int 1000000 = ''1000000''"
    by (simp add: show_int_def digit_char_def)
  show ?thesis
    by (simp add: e m t uploadFile_def Let_def fetch_def b fullBody_def file_part_head_def
          categoryPart_def)
qed

end
